theory Spec2Isabelle
  imports Complex_Main "HOL-Library.Sublist" "HOL-Library.AList"
begin

section \<open>Python values used by the ingestion pipeline\<close>

text \<open>
  The pipeline is Python. Every \<^verbatim>\<open>raise\<close> that the modelled code can reach is a value of
  \<open>exn\<close>, and a function that can raise returns \<open>exn + 'a\<close> with \<open>Inl\<close> the exception.
  \<open>ServiceError\<close> stands for any exception raised by the call to the synthesis service
  (transport failure, authentication, timeout), \<open>JSONDecodeError\<close> for
  \<^verbatim>\<open>json.loads\<close> rejecting the text of a reply.
\<close>

datatype exn =
    ZeroDivisionError
  | KeyError string
  | IndexError
  | TypeError
  | AttributeError
  | NameError
  | JSONDecodeError
  | ServiceError
  | OtherError string

subsection \<open>Strings\<close>

text \<open>
  Strings are lists of characters. \<open>lower\<close> is \<^verbatim>\<open>str.lower\<close> on ASCII text: the model
  covers column names written in ASCII. \<open>py_in sub s\<close> is \<^verbatim>\<open>sub in s\<close>,
  \<open>endswith s suf\<close> is \<^verbatim>\<open>s.endswith(suf)\<close>, \<open>py_join sep xs\<close> is
  \<^verbatim>\<open>sep.join(xs)\<close>.
\<close>

definition lower_char :: "char \<Rightarrow> char" where
  "lower_char c =
     (case map_of (zip ''ABCDEFGHIJKLMNOPQRSTUVWXYZ'' ''abcdefghijklmnopqrstuvwxyz'') c of
        Some d \<Rightarrow> d
      | None \<Rightarrow> c)"

definition lower :: "string \<Rightarrow> string" where
  "lower s = map lower_char s"

fun py_in :: "string \<Rightarrow> string \<Rightarrow> bool" where
  "py_in sub [] = (sub = [])"
| "py_in sub (c # s) = (prefix sub (c # s) \<or> py_in sub s)"

definition endswith :: "string \<Rightarrow> string \<Rightarrow> bool" where
  "endswith s suf = prefix (rev suf) (rev s)"

fun py_join :: "string \<Rightarrow> string list \<Rightarrow> string" where
  "py_join sep [] = []"
| "py_join sep [x] = x"
| "py_join sep (x # y # ys) = x @ sep @ py_join sep (y # ys)"

section \<open>File analyzer (data\_ingestion/file\_analyzer.py)\<close>

text \<open>
  A parsed column and a parsed table are the dictionaries the file parser produces; the
  counts are lengths and cardinalities, hence natural numbers. A data row is a dictionary
  from field names to values, kept as an association list in key order.
\<close>

datatype pyval =
    PNone
  | PBool bool
  | PInt int
  | PStr string
  | PDatetime string
  | PComposite string

type_synonym row = "(string \<times> pyval) list"

record parsed_column =
  col_name :: string
  col_type :: string
  null_count :: nat
  unique_count :: nat

record parsed_table =
  tbl_name :: string
  row_count :: nat
  columns :: "parsed_column list"
  data :: "row list"

record table_info =
  source_file :: string
  table :: parsed_table

subsection \<open>Primary-key suggestion\<close>

record candidate =
  cand_column :: string
  score :: nat
  cand_reason :: string

record pk_suggestion =
  pk_column :: string
  pk_confidence :: string
  pk_reason :: string

text \<open>The score a qualifying column gets in the loop body of \<^verbatim>\<open>_suggest_primary_key\<close>.\<close>

definition pk_score :: "parsed_column \<Rightarrow> nat" where
  "pk_score col =
     (let score = 100;
          col_name_lower = lower (col_name col);
          score = (if py_in ''id'' col_name_lower then score + 50 else score);
          score = (if endswith col_name_lower ''_id'' \<or> col_name_lower = ''id''
                   then score + 25 else score);
          score = (if col_type col = ''integer'' then score + 25 else score)
      in score)"

definition is_pk_candidate :: "parsed_table \<Rightarrow> parsed_column \<Rightarrow> bool" where
  "is_pk_candidate tbl col =
     (let is_unique = (unique_count col = row_count tbl);
          has_no_nulls = (null_count col = 0)
      in is_unique \<and> has_no_nulls)"

definition mk_candidate :: "parsed_column \<Rightarrow> candidate" where
  "mk_candidate col =
     \<lparr>cand_column = col_name col, score = pk_score col,
      cand_reason = ''Unique values, no nulls, type: '' @ col_type col\<rparr>"

fun pk_candidates :: "parsed_table \<Rightarrow> parsed_column list \<Rightarrow> candidate list" where
  "pk_candidates tbl [] = []"
| "pk_candidates tbl (col # cols) =
     (if is_pk_candidate tbl col then mk_candidate col # pk_candidates tbl cols
      else pk_candidates tbl cols)"

text \<open>
  \<^verbatim>\<open>max(xs, key=f)\<close> on a non-empty list: a later element replaces the current best
  only when its key is strictly greater, so the first maximal element wins.
\<close>

fun py_max_from :: "('a \<Rightarrow> nat) \<Rightarrow> 'a \<Rightarrow> 'a list \<Rightarrow> 'a" where
  "py_max_from key best [] = best"
| "py_max_from key best (x # xs) =
     py_max_from key (if key best < key x then x else best) xs"

definition suggest_primary_key :: "parsed_table \<Rightarrow> pk_suggestion option" where
  "suggest_primary_key tbl =
     (if row_count tbl = 0 then None
      else case pk_candidates tbl (columns tbl) of
             [] \<Rightarrow> None
           | c # cs \<Rightarrow>
               (let best = py_max_from score c cs
                in Some \<lparr>pk_column = cand_column best,
                         pk_confidence = (if 150 \<le> score best then ''high'' else ''medium''),
                         pk_reason = cand_reason best\<rparr>))"

subsection \<open>Relationship detection\<close>

text \<open>
  The similarity score is a Python float built from the constants 0.5, 0.3, 0.2 and 0.4.
  It is modelled as an exact rational. For each of the sixteen sums the code can form,
  the double-precision result compares with 0.5 and with 0.8 exactly as the rational does
  (0.3 + 0.2 is 0.5 and 0.5 + 0.3 is 0.8 in double precision), so the two thresholds
  decide the same way.
\<close>

definition calculate_column_similarity :: "parsed_column \<Rightarrow> parsed_column \<Rightarrow> rat" where
  "calculate_column_similarity col1 col2 =
     (let score = 0;
          score = (if col_name col1 = col_name col2 then score + 5 / 10 else score);
          name1_lower = lower (col_name col1);
          name2_lower = lower (col_name col2);
          score = (if py_in name1_lower name2_lower \<or> py_in name2_lower name1_lower
                   then score + 3 / 10 else score);
          score = (if col_type col1 = col_type col2 then score + 2 / 10 else score);
          score = (if (py_in ''_id'' name1_lower \<and> name2_lower = ''id'') \<or>
                      (py_in ''_id'' name2_lower \<and> name1_lower = ''id'')
                   then score + 4 / 10 else score)
      in min score 1)"

definition get_relationship_reason :: "parsed_column \<Rightarrow> parsed_column \<Rightarrow> string" where
  "get_relationship_reason col1 col2 =
     (let reasons = [];
          reasons =
            (if col_name col1 = col_name col2 then reasons @ [''identical column names'']
             else if py_in (lower (col_name col1)) (lower (col_name col2)) \<or>
                     py_in (lower (col_name col2)) (lower (col_name col1))
             then reasons @ [''similar column names'']
             else reasons);
          reasons =
            (if col_type col1 = col_type col2
             then reasons @ [''matching types ('' @ col_type col1 @ '')'']
             else reasons);
          reasons =
            (if py_in ''_id'' (lower (col_name col1)) \<or> py_in ''_id'' (lower (col_name col2))
             then reasons @ [''foreign key naming pattern'']
             else reasons)
      in if reasons \<noteq> [] then py_join '', '' reasons else ''column similarity detected'')"

record relationship =
  from_file :: string
  from_table :: string
  from_column :: string
  to_file :: string
  to_table :: string
  to_column :: string
  confidence :: string
  reason :: string

definition mk_relationship ::
  "table_info \<Rightarrow> table_info \<Rightarrow> parsed_column \<Rightarrow> parsed_column \<Rightarrow> relationship" where
  "mk_relationship table1_info table2_info col1 col2 =
     \<lparr>from_file = source_file table1_info,
      from_table = tbl_name (table table1_info),
      from_column = col_name col1,
      to_file = source_file table2_info,
      to_table = tbl_name (table table2_info),
      to_column = col_name col2,
      confidence = (if 8 / 10 < calculate_column_similarity col1 col2
                    then ''high'' else ''medium''),
      reason = get_relationship_reason col1 col2\<rparr>"

text \<open>The two inner loops over the columns of one pair of tables.\<close>

definition pair_relationships :: "table_info \<Rightarrow> table_info \<Rightarrow> relationship list" where
  "pair_relationships table1_info table2_info =
     concat (map (\<lambda>col1.
       concat (map (\<lambda>col2.
         if 5 / 10 < calculate_column_similarity col1 col2
         then [mk_relationship table1_info table2_info col1 col2] else [])
       (columns (table table2_info))))
     (columns (table table1_info)))"

text \<open>The outer loops: each table against the tables after it in the list.\<close>

fun detect_relationships :: "table_info list \<Rightarrow> relationship list" where
  "detect_relationships [] = []"
| "detect_relationships (table1_info # rest) =
     concat (map (pair_relationships table1_info) rest) @ detect_relationships rest"

subsection \<open>Data-quality findings\<close>

text \<open>
  The percentages are Python floats, modelled as rationals. The text of a percentage
  (\<^verbatim>\<open>f"{null_pct:.1f}"\<close>) is produced by the parameter \<open>fmt\<close>. The average over the
  columns divides by the number of columns and raises \<^verbatim>\<open>ZeroDivisionError\<close> for a
  table with rows and no column.
\<close>

definition null_pct :: "parsed_table \<Rightarrow> parsed_column \<Rightarrow> rat" where
  "null_pct tbl col =
     (if 0 < row_count tbl then of_nat (null_count col) / of_nat (row_count tbl) * 100 else 0)"

fun null_issues :: "(rat \<Rightarrow> string) \<Rightarrow> parsed_table \<Rightarrow> parsed_column list \<Rightarrow> string list" where
  "null_issues fmt tbl [] = []"
| "null_issues fmt tbl (col # cols) =
     (if 50 < null_pct tbl col
      then (''Column '' @ [CHR 0x27] @ col_name col @ [CHR 0x27] @ '' has '' @
            fmt (null_pct tbl col) @ ''% null values'') # null_issues fmt tbl cols
      else null_issues fmt tbl cols)"

definition detect_data_quality_issues ::
  "(rat \<Rightarrow> string) \<Rightarrow> parsed_table \<Rightarrow> exn + string list" where
  "detect_data_quality_issues fmt tbl =
     (let issues = null_issues fmt tbl (columns tbl) in
      case (if 0 < row_count tbl
            then (if columns tbl = [] then Inl ZeroDivisionError
                  else (let avg_unique_pct =
                              sum_list (map (\<lambda>col. of_nat (unique_count col) /
                                                    of_nat (row_count tbl) * 100) (columns tbl))
                              / of_nat (length (columns tbl))
                        in if avg_unique_pct < (10 :: rat) \<and> 10 < row_count tbl
                           then Inr (issues @
                             [''Potential duplicate rows detected (low unique value percentage)''])
                           else Inr issues))
            else Inr issues) of
        Inl e \<Rightarrow> Inl e
      | Inr issues \<Rightarrow>
          (let has_unique_col =
                 list_ex (\<lambda>col. unique_count col = row_count tbl \<and> null_count col = 0)
                   (columns tbl)
           in if \<not> has_unique_col \<and> 0 < row_count tbl
              then Inr (issues @ [''No obvious primary key candidate found''])
              else Inr issues))"

section \<open>Schema agent (agents/schema\_agent.py)\<close>

subsection \<open>Decoded JSON and the Python operations on it\<close>

text \<open>
  A value \<^verbatim>\<open>json.loads\<close> returns: \<^verbatim>\<open>None\<close>, a boolean, a number (integers only in
  this model), a string, a list, or a dictionary, kept in key order with distinct keys.
  The plan and the verification report are such values; the code reads them with
  \<^verbatim>\<open>d.get(k, default)\<close> (\<open>py_get\<close>), \<^verbatim>\<open>d[k]\<close> (\<open>py_item\<close>), \<^verbatim>\<open>d[k] = v\<close>
  (\<open>py_set\<close>), \<^verbatim>\<open>for x in d\<close> (\<open>py_iter\<close>), \<^verbatim>\<open>len(d)\<close> (\<open>py_len\<close>) and by
  truth value (\<open>truthy\<close>). Each raises what Python raises on a value of the wrong kind.
\<close>

datatype json =
    JNull
  | JBool bool
  | JNum int
  | JStr string
  | JArr "json list"
  | JObj "(string \<times> json) list"

fun truthy :: "json \<Rightarrow> bool" where
  "truthy JNull = False"
| "truthy (JBool b) = b"
| "truthy (JNum i) = (i \<noteq> 0)"
| "truthy (JStr s) = (s \<noteq> [])"
| "truthy (JArr xs) = (xs \<noteq> [])"
| "truthy (JObj kvs) = (kvs \<noteq> [])"

fun py_get :: "json \<Rightarrow> string \<Rightarrow> json \<Rightarrow> exn + json" where
  "py_get (JObj kvs) k dflt = Inr (case map_of kvs k of None \<Rightarrow> dflt | Some v \<Rightarrow> v)"
| "py_get _ k dflt = Inl AttributeError"

fun py_item :: "json \<Rightarrow> string \<Rightarrow> exn + json" where
  "py_item (JObj kvs) k = (case map_of kvs k of None \<Rightarrow> Inl (KeyError k) | Some v \<Rightarrow> Inr v)"
| "py_item _ k = Inl TypeError"

fun py_set :: "json \<Rightarrow> string \<Rightarrow> json \<Rightarrow> exn + json" where
  "py_set (JObj kvs) k v = Inr (JObj (AList.update k v kvs))"
| "py_set _ k v = Inl TypeError"

fun py_iter :: "json \<Rightarrow> exn + json list" where
  "py_iter (JArr xs) = Inr xs"
| "py_iter (JObj kvs) = Inr (map (\<lambda>kv. JStr (fst kv)) kvs)"
| "py_iter (JStr s) = Inr (map (\<lambda>c. JStr [c]) s)"
| "py_iter _ = Inl TypeError"

fun py_len :: "json \<Rightarrow> exn + nat" where
  "py_len (JArr xs) = Inr (length xs)"
| "py_len (JObj kvs) = Inr (length kvs)"
| "py_len (JStr s) = Inr (length s)"
| "py_len _ = Inl TypeError"

text \<open>Sequencing of steps that can raise: the first exception ends the computation.\<close>

definition try_bind :: "exn + 'a \<Rightarrow> ('a \<Rightarrow> exn + 'b) \<Rightarrow> exn + 'b" where
  "try_bind m f = (case m of Inl e \<Rightarrow> Inl e | Inr x \<Rightarrow> f x)"

fun try_map :: "('a \<Rightarrow> exn + 'b) \<Rightarrow> 'a list \<Rightarrow> exn + 'b list" where
  "try_map f [] = Inr []"
| "try_map f (x # xs) =
     (case f x of
        Inl e \<Rightarrow> Inl e
      | Inr y \<Rightarrow> (case try_map f xs of Inl e \<Rightarrow> Inl e | Inr ys \<Rightarrow> Inr (y # ys)))"

subsection \<open>The synthesis service\<close>

text \<open>
  The service is called through \<^verbatim>\<open>client.chat.completions.create\<close>. One run of the
  agent makes its calls one after another, so the behaviour of the service in a run is
  the sequence of its replies: \<open>svc n\<close> is the reply to call number \<open>n\<close>, counted from 0.
  A reply is a failure of the call (any exception it raises) or a text. The JSON parser
  is not modelled: a text comes with the value \<^verbatim>\<open>json.loads\<close> returns for it, \<open>None\<close>
  when \<^verbatim>\<open>json.loads\<close> raises. The prompts are built from the narrative of the analysis,
  the requirements and \<^verbatim>\<open>json.dumps\<close> of decoded values; for an analysis the analyzer
  produced this does not raise, and since the replies are given per call the prompts are
  left out. The progress callback is optional and is taken to be absent.
\<close>

datatype reply = Service_failure | Reply string "json option"

type_synonym service = "nat \<Rightarrow> reply"

definition chat_content :: "service \<Rightarrow> nat \<Rightarrow> exn + string" where
  "chat_content svc n =
     (case svc n of Service_failure \<Rightarrow> Inl ServiceError | Reply content parsed \<Rightarrow> Inr content)"

definition chat_json :: "service \<Rightarrow> nat \<Rightarrow> exn + json" where
  "chat_json svc n =
     (case svc n of
        Service_failure \<Rightarrow> Inl ServiceError
      | Reply content None \<Rightarrow> Inl JSONDecodeError
      | Reply content (Some v) \<Rightarrow> Inr v)"

definition create_initial_plan :: "service \<Rightarrow> nat \<Rightarrow> exn + json" where
  "create_initial_plan svc n = chat_json svc n"

definition refine_plan :: "service \<Rightarrow> nat \<Rightarrow> exn + json" where
  "refine_plan svc n = chat_json svc n"

subsection \<open>Code generation and the removal of code fences\<close>

text \<open>
  \<open>py_split sep s\<close> is \<^verbatim>\<open>s.split(sep)\<close> for a non-empty separator, \<open>py_nth\<close> is list
  indexing with its \<^verbatim>\<open>IndexError\<close>, \<open>py_strip\<close> is \<^verbatim>\<open>s.strip()\<close> on ASCII text.
\<close>

fun split_from :: "string \<Rightarrow> nat \<Rightarrow> string \<Rightarrow> string \<Rightarrow> string list" where
  "split_from sep skip piece [] = [piece]"
| "split_from sep skip piece (c # s) =
     (if 0 < skip then split_from sep (skip - 1) piece s
      else if sep \<noteq> [] \<and> prefix sep (c # s) then piece # split_from sep (length sep - 1) [] s
      else split_from sep 0 (piece @ [c]) s)"

definition py_split :: "string \<Rightarrow> string \<Rightarrow> string list" where
  "py_split sep s = split_from sep 0 [] s"

definition py_nth :: "'a list \<Rightarrow> nat \<Rightarrow> exn + 'a" where
  "py_nth xs i = (if i < length xs then Inr (xs ! i) else Inl IndexError)"

definition is_space :: "char \<Rightarrow> bool" where
  "is_space c \<longleftrightarrow>
     c \<in> set [CHR 0x09, CHR 0x0A, CHR 0x0B, CHR 0x0C, CHR 0x0D,
               CHR 0x1C, CHR 0x1D, CHR 0x1E, CHR 0x1F, CHR 0x20]"

definition py_strip :: "string \<Rightarrow> string" where
  "py_strip s = rev (dropWhile is_space (rev (dropWhile is_space s)))"

definition strip_fence :: "string \<Rightarrow> string \<Rightarrow> exn + string" where
  "strip_fence fence code =
     try_bind (py_nth (py_split fence code) 1) (\<lambda>inner.
     try_bind (py_nth (py_split ''```'' inner) 0) (\<lambda>body.
     Inr (py_strip body)))"

definition generate_code :: "service \<Rightarrow> nat \<Rightarrow> exn + string" where
  "generate_code svc n =
     try_bind (chat_content svc n) (\<lambda>code.
       if prefix ''```python'' code then strip_fence ''```python'' code
       else if prefix ''```'' code then strip_fence ''```'' code
       else Inr code)"

subsection \<open>Verification and routing\<close>

text \<open>
  \<open>with_severity sev issues\<close> is the comprehension
  \<^verbatim>\<open>[i for i in issues if i.get("severity") == sev]\<close>, which raises at the first element
  that has no \<^verbatim>\<open>get\<close>.
\<close>

fun with_severity :: "string \<Rightarrow> json list \<Rightarrow> exn + json list" where
  "with_severity sev [] = Inr []"
| "with_severity sev (i # rest) =
     (case py_get i ''severity'' JNull of
        Inl e \<Rightarrow> Inl e
      | Inr s \<Rightarrow>
          (case with_severity sev rest of
             Inl e \<Rightarrow> Inl e
           | Inr kept \<Rightarrow> Inr (if s = JStr sev then i # kept else kept)))"

definition verify_schema :: "service \<Rightarrow> nat \<Rightarrow> exn + json" where
  "verify_schema svc n =
     try_bind (chat_json svc n) (\<lambda>verification.
     try_bind (py_get verification ''is_sufficient'' JNull) (\<lambda>flag.
       if \<not> truthy flag then
         try_bind (py_get verification ''issues'' (JArr [])) (\<lambda>issues.
         try_bind (py_iter issues) (\<lambda>items.
         try_bind (with_severity ''critical'' items) (\<lambda>critical_issues.
         py_set verification ''is_sufficient'' (JBool (length critical_issues = 0)))))
       else Inr verification))"

record action =
  action_type :: string
  action_reason :: string

text \<open>
  The reason of an action interpolates a decoded value into a string. \<open>str\<close> stands for
  Python's \<^verbatim>\<open>str\<close> on a decoded value (the text itself for a string) and is a parameter.
\<close>

definition first_description :: "json list \<Rightarrow> exn + json" where
  "first_description found = try_bind (py_nth found 0) (\<lambda>i. py_item i ''description'')"

definition route_next_action :: "(json \<Rightarrow> string) \<Rightarrow> json \<Rightarrow> exn + action" where
  "route_next_action str verification =
     try_bind (py_get verification ''issues'' (JArr [])) (\<lambda>issues.
       if \<not> truthy issues
       then Inr \<lparr>action_type = ''complete'', action_reason = ''No issues found''\<rparr>
       else
         try_bind (py_iter issues) (\<lambda>items.
         try_bind (with_severity ''critical'' items) (\<lambda>critical.
           if critical \<noteq> [] then
             try_bind (first_description critical) (\<lambda>d.
             Inr \<lparr>action_type = ''refine'',
                  action_reason = ''Fix critical issue: '' @ str d\<rparr>)
           else
             try_bind (with_severity ''warning'' items) (\<lambda>warnings.
               if warnings \<noteq> [] then
                 try_bind (first_description warnings) (\<lambda>d.
                 Inr \<lparr>action_type = ''refine'',
                      action_reason = ''Address warning: '' @ str d\<rparr>)
               else Inr \<lparr>action_type = ''complete'',
                         action_reason = ''Only minor issues remain''\<rparr>))))"

subsection \<open>The textual description of a plan\<close>

text \<open>
  \<^verbatim>\<open>_generate_description\<close> walks the plan. A missing key that is read with
  \<^verbatim>\<open>d[k]\<close> raises \<^verbatim>\<open>KeyError\<close>, a value of the wrong kind raises \<^verbatim>\<open>TypeError\<close> or
  \<^verbatim>\<open>AttributeError\<close>; the plan \<^verbatim>\<open>None\<close> raises \<^verbatim>\<open>TypeError\<close> at the first line.
  \<open>newline\<close> is the line feed and \<open>arrow\<close> the UTF-8 text of the arrow in the source.
\<close>

definition newline :: string where
  "newline = [CHR 0x0A]"

definition arrow :: string where
  "arrow = [CHR 0xE2, CHR 0x86, CHR 0x92]"

definition column_line :: "(json \<Rightarrow> string) \<Rightarrow> json \<Rightarrow> exn + string" where
  "column_line str col =
     try_bind (py_get col ''primary_key'' JNull) (\<lambda>pk.
     try_bind (py_get col ''unique'' JNull) (\<lambda>uq.
     try_bind (py_get col ''nullable'' (JBool True)) (\<lambda>nullable.
     try_bind (py_get col ''foreign_key'' JNull) (\<lambda>fk.
     try_bind (if truthy fk
               then try_bind (py_item col ''foreign_key'') (\<lambda>target.
                      Inr [''FK '' @ arrow @ '' '' @ str target])
               else Inr []) (\<lambda>fk_flag.
       let flags = (if truthy pk then [''PK''] else []) @
                   (if truthy uq then [''UNIQUE''] else []) @
                   (if \<not> truthy nullable then [''NOT NULL''] else []) @
                   fk_flag;
           flag_str = (if flags \<noteq> [] then '' ['' @ py_join '', '' flags @ '']'' else '''')
       in
     try_bind (py_item col ''name'') (\<lambda>name.
     try_bind (py_item col ''type'') (\<lambda>type.
     Inr (''- `'' @ str name @ ''` ('' @ str type @ '')'' @ flag_str))))))))"

definition table_lines :: "(json \<Rightarrow> string) \<Rightarrow> json \<Rightarrow> exn + string list" where
  "table_lines str tbl =
     try_bind (py_item tbl ''name'') (\<lambda>name.
     try_bind (py_get tbl ''purpose'' (JStr ''No description'')) (\<lambda>purpose.
     try_bind (py_item tbl ''columns'') (\<lambda>cols.
     try_bind (py_len cols) (\<lambda>n.
     try_bind (py_iter cols) (\<lambda>items.
     try_bind (try_map (column_line str) items) (\<lambda>col_lines.
     Inr ([newline @ ''## '' @ str name,
           str purpose @ newline,
           ''**Columns ('' @ str (JNum (int n)) @ ''):**''] @ col_lines)))))))"

definition relationship_line :: "(json \<Rightarrow> string) \<Rightarrow> json \<Rightarrow> exn + string" where
  "relationship_line str rel =
     try_bind (py_item rel ''from_table'') (\<lambda>from_table.
     try_bind (py_item rel ''from_column'') (\<lambda>from_column.
     try_bind (py_item rel ''to_table'') (\<lambda>to_table.
     try_bind (py_item rel ''to_column'') (\<lambda>to_column.
     try_bind (py_get rel ''relationship_type'' (JStr ''unknown'')) (\<lambda>kind.
     Inr (''- '' @ str from_table @ ''.'' @ str from_column @ '' '' @ arrow @ '' '' @
          str to_table @ ''.'' @ str to_column @ '' ('' @ str kind @ '')''))))))"

definition generate_description :: "(json \<Rightarrow> string) \<Rightarrow> json \<Rightarrow> exn + string" where
  "generate_description str plan =
     try_bind (py_item plan ''tables'') (\<lambda>tbls.
     try_bind (py_len tbls) (\<lambda>n.
     try_bind (py_iter tbls) (\<lambda>items.
     try_bind (try_map (table_lines str) items) (\<lambda>per_table.
     try_bind (py_get plan ''relationships'' JNull) (\<lambda>rels.
     try_bind (if truthy rels
               then try_bind (py_item plan ''relationships'') (\<lambda>rs.
                    try_bind (py_iter rs) (\<lambda>rel_items.
                    try_bind (try_map (relationship_line str) rel_items) (\<lambda>rel_lines.
                    Inr ((newline @ ''## Relationships'' @ newline) # rel_lines))))
               else Inr []) (\<lambda>rel_part.
     Inr (py_join newline
            ([''# Database Schema Description'' @ newline,
              ''This schema contains '' @ str (JNum (int n)) @ '' table(s):'' @ newline] @
             concat per_table @ rel_part))))))))"

subsection \<open>The refinement loop\<close>

record refinement_round =
  round_num :: nat
  plan :: json
  verification :: json
  action :: "action option"

record schema_result =
  schema_code :: string
  schema_description :: string
  verification_status :: json
  schema_warnings :: json
  relationships_detected :: json
  refinement_history :: "refinement_round list"
  rounds_taken :: nat

text \<open>
  One pass through the body of the loop, starting at service call \<open>n\<close>: plan, compile,
  verify, route. It returns the record appended to the history and whether the loop
  breaks. An exception in a round leaves \<^verbatim>\<open>generate_schema\<close>, which has no handler, so
  what the round had appended to the history by then is never seen.
\<close>

definition run_round ::
  "service \<Rightarrow> (json \<Rightarrow> string) \<Rightarrow> nat \<Rightarrow> nat \<Rightarrow> json \<Rightarrow> exn + (refinement_round \<times> bool)" where
  "run_round svc str rnd n current_plan =
     try_bind (if current_plan = JNull then create_initial_plan svc n
               else refine_plan svc n) (\<lambda>new_plan.
     try_bind (generate_code svc (n + 1)) (\<lambda>code.
     try_bind (verify_schema svc (n + 2)) (\<lambda>report.
     try_bind (py_item report ''is_sufficient'') (\<lambda>flag.
       if truthy flag
       then Inr (\<lparr>round_num = rnd, plan = new_plan, verification = report,
                  action = None\<rparr>, True)
       else try_bind (route_next_action str report) (\<lambda>act.
              Inr (\<lparr>round_num = rnd, plan = new_plan, verification = report,
                    action = Some act\<rparr>, False))))))"

text \<open>
  \<^verbatim>\<open>for round_num in range(1, self.max_rounds + 1)\<close>: \<open>remaining\<close> counts the rounds
  left, \<open>n\<close> the service calls made so far. The result is the current plan, the history
  and the number of calls made.
\<close>

fun refine_loop ::
  "service \<Rightarrow> (json \<Rightarrow> string) \<Rightarrow> nat \<Rightarrow> nat \<Rightarrow> nat \<Rightarrow> json \<Rightarrow> refinement_round list \<Rightarrow>
   exn + (json \<times> refinement_round list \<times> nat)" where
  "refine_loop svc str 0 rnd n current_plan history = Inr (current_plan, history, n)"
| "refine_loop svc str (Suc remaining) rnd n current_plan history =
     (case run_round svc str rnd n current_plan of
        Inl e \<Rightarrow> Inl e
      | Inr (entry, sufficient) \<Rightarrow>
          if sufficient then Inr (plan entry, history @ [entry], n + 3)
          else refine_loop svc str remaining (rnd + 1) (n + 3) (plan entry)
                 (history @ [entry]))"

text \<open>
  \<^verbatim>\<open>generate_schema\<close>. After the loop the plan is compiled once more, described, and
  the result is built from the last verification report; with no round run that variable
  is unbound. \<open>max_rounds\<close> is a natural number: a negative value runs no round, as 0 does.
\<close>

definition generate_schema ::
  "service \<Rightarrow> (json \<Rightarrow> string) \<Rightarrow> nat \<Rightarrow> exn + schema_result" where
  "generate_schema svc str max_rounds =
     try_bind (refine_loop svc str max_rounds 1 0 JNull []) (\<lambda>(current_plan, history, n).
     try_bind (generate_code svc n) (\<lambda>final_schema.
     try_bind (generate_description str current_plan) (\<lambda>description.
     try_bind (if history = [] then Inl NameError
               else Inr (verification (last history))) (\<lambda>report.
     try_bind (py_item report ''is_sufficient'') (\<lambda>status.
     try_bind (py_get report ''warnings'' (JArr [])) (\<lambda>warns.
     try_bind (py_get current_plan ''relationships'' (JArr [])) (\<lambda>rels.
     Inr \<lparr>schema_code = final_schema,
          schema_description = description,
          verification_status = status,
          schema_warnings = warns,
          relationships_detected = rels,
          refinement_history = history,
          rounds_taken = length history\<rparr>)))))))"

section \<open>Database builder (database\_builder.py)\<close>

text \<open>
  The values bound to an INSERT statement. \<open>convert_value\<close> is \<^verbatim>\<open>_convert_value\<close>, in the
  order of its tests: \<^verbatim>\<open>None\<close>, then a date or datetime (\<open>PDatetime\<close> carries the text
  \<^verbatim>\<open>isoformat()\<close> returns), then a boolean, then a dictionary or list (\<open>PComposite\<close>
  carries the text \<^verbatim>\<open>json.dumps\<close> returns), then everything else unchanged.
\<close>

datatype sqlval = SNull | SInt int | SText string

fun convert_value :: "pyval \<Rightarrow> sqlval" where
  "convert_value PNone = SNull"
| "convert_value (PDatetime isotext) = SText isotext"
| "convert_value (PBool b) = SInt (if b then 1 else 0)"
| "convert_value (PComposite js) = SText js"
| "convert_value (PInt i) = SInt i"
| "convert_value (PStr s) = SText s"

text \<open>
  The SQLite engine is a parameter: \<open>execute db sql params\<close> is
  \<^verbatim>\<open>cursor.execute(sql, params)\<close> on the connection in state \<open>db\<close>. It returns the new
  state, or \<open>Inl msg\<close> when the statement raises an \<^verbatim>\<open>sqlite3.Error\<close> whose text is
  \<open>msg\<close>; a failed statement leaves the connection as it was.
\<close>

type_synonym 'db engine = "'db \<Rightarrow> string \<Rightarrow> sqlval list \<Rightarrow> string + 'db"

text \<open>\<^verbatim>\<open>row.get(col)\<close> on a data row: the value, or \<^verbatim>\<open>None\<close> for a key the row lacks.\<close>

definition row_get :: "row \<Rightarrow> string \<Rightarrow> pyval" where
  "row_get r col = (case map_of r col of None \<Rightarrow> PNone | Some v \<Rightarrow> v)"

definition row_values :: "string list \<Rightarrow> row \<Rightarrow> sqlval list" where
  "row_values col_names r = map (\<lambda>col. convert_value (row_get r col)) col_names"

definition insert_statement :: "string \<Rightarrow> string list \<Rightarrow> string" where
  "insert_statement table_name col_names =
     (let placeholders = py_join '','' (map (\<lambda>_. ''?'') col_names)
      in ''INSERT INTO '' @ table_name @ '' ('' @ py_join '','' col_names @
         '') VALUES ('' @ placeholders @ '')'')"

text \<open>
  The loop over the rows of \<^verbatim>\<open>_insert_data\<close>, with the connection, the counter and
  the error list as accumulators.
\<close>

fun insert_rows ::
  "'db engine \<Rightarrow> string \<Rightarrow> string \<Rightarrow> string list \<Rightarrow> row list \<Rightarrow>
   'db \<Rightarrow> nat \<Rightarrow> string list \<Rightarrow> 'db \<times> nat \<times> string list" where
  "insert_rows execute table_name insert_sql col_names [] db inserted errors =
     (db, inserted, errors)"
| "insert_rows execute table_name insert_sql col_names (r # rows) db inserted errors =
     (case execute db insert_sql (row_values col_names r) of
        Inr db' \<Rightarrow>
          insert_rows execute table_name insert_sql col_names rows db' (inserted + 1) errors
      | Inl e \<Rightarrow>
          insert_rows execute table_name insert_sql col_names rows db inserted
            (errors @ [''Error inserting row into '' @ table_name @ '': '' @ e]))"

definition insert_data ::
  "'db engine \<Rightarrow> 'db \<Rightarrow> string \<Rightarrow> row list \<Rightarrow> 'db \<times> nat \<times> string list" where
  "insert_data execute db table_name rows =
     (case rows of
        [] \<Rightarrow> (db, 0, [])
      | first # _ \<Rightarrow>
          (let col_names = map fst first;
               insert_sql = insert_statement table_name col_names
           in insert_rows execute table_name insert_sql col_names rows db 0 []))"

text \<open>
  A parsed file and the result dictionary of \<^verbatim>\<open>create_database_from_schema\<close>.
  \<open>rows_inserted\<close> is a dictionary keyed by table name: assigning to a key that is present
  replaces its value.
\<close>

record parsed_file =
  filename :: string
  file_format :: string
  tables :: "parsed_table list"

record build_result =
  success :: bool
  db_path :: string
  tables_created :: nat
  rows_inserted :: "(string \<times> nat) list"
  errors :: "string list"
  warnings :: "string list"

text \<open>The loop that creates the tables: one statement at a time, each in its own \<^verbatim>\<open>try\<close>.\<close>

fun create_tables :: "'db engine \<Rightarrow> string list \<Rightarrow> 'db \<Rightarrow> build_result \<Rightarrow> 'db \<times> build_result" where
  "create_tables execute [] db result = (db, result)"
| "create_tables execute (table_sql # stmts) db result =
     (case execute db table_sql [] of
        Inr db' \<Rightarrow>
          create_tables execute stmts db' (result\<lparr>tables_created := tables_created result + 1\<rparr>)
      | Inl e \<Rightarrow>
          create_tables execute stmts db
            (result\<lparr>errors := errors result @ [''Error creating table: '' @ e]\<rparr>))"

text \<open>The loops that load the data: every table of every parsed file, in order.\<close>

fun load_tables :: "'db engine \<Rightarrow> parsed_table list \<Rightarrow> 'db \<Rightarrow> build_result \<Rightarrow> 'db \<times> build_result" where
  "load_tables execute [] db result = (db, result)"
| "load_tables execute (table_info # rest) db result =
     (let table_name = tbl_name table_info;
          (db', inserted, errs) = insert_data execute db table_name (data table_info);
          result = result\<lparr>rows_inserted := AList.update table_name inserted (rows_inserted result)\<rparr>;
          result = (if errs \<noteq> [] then result\<lparr>warnings := warnings result @ errs\<rparr> else result)
      in load_tables execute rest db' result)"

fun load_files :: "'db engine \<Rightarrow> parsed_file list \<Rightarrow> 'db \<Rightarrow> build_result \<Rightarrow> 'db \<times> build_result" where
  "load_files execute [] db result = (db, result)"
| "load_files execute (file_data # rest) db result =
     (let (db', result') = load_tables execute (tables file_data) db result
      in load_files execute rest db' result')"

text \<open>
  \<^verbatim>\<open>create_database_from_schema\<close>. The compiler from model code to CREATE TABLE statements
  (\<^verbatim>\<open>_generate_create_table_sql\<close>) and \<^verbatim>\<open>sqlite3.connect\<close> are parameters: each returns
  its value, or \<open>Inl msg\<close> when it raises an exception whose text is \<open>msg\<close>. An exception
  from either is caught by the outer handler, which records it and returns the result
  with \<open>success\<close> still false. Commit and close are taken to succeed.
\<close>

definition create_database_from_schema ::
  "(string \<Rightarrow> string + string list) \<Rightarrow> (string \<Rightarrow> string + 'db) \<Rightarrow> 'db engine \<Rightarrow>
   string \<Rightarrow> string \<Rightarrow> string \<Rightarrow> parsed_file list \<Rightarrow> build_result" where
  "create_database_from_schema generate_create_table_sql connect execute
       db_directory schema_text db_name parsed_data =
     (let result = \<lparr>success = False, db_path = db_directory @ ''/'' @ db_name @ ''.db'',
                     tables_created = 0, rows_inserted = [], errors = [], warnings = []\<rparr>
      in case generate_create_table_sql schema_text of
           Inl e \<Rightarrow> result\<lparr>errors := errors result @ [''Database creation failed: '' @ e]\<rparr>
         | Inr create_table_statements \<Rightarrow>
             (case connect (db_path result) of
                Inl e \<Rightarrow> result\<lparr>errors := errors result @ [''Database creation failed: '' @ e]\<rparr>
              | Inr conn \<Rightarrow>
                  (let (conn', result') = create_tables execute create_table_statements conn result;
                       (conn'', result'') = load_files execute parsed_data conn' result'
                   in result''\<lparr>success := True\<rparr>)))"

section \<open>Ingestion orchestrator (agents/ingestion\_orchestrator.py)\<close>

text \<open>
  The stages of \<^verbatim>\<open>IngestionState.STAGES\<close> and the fields of a job that the stage
  handlers read or write; the time stamps and the progress record are left out. The
  analysis report is of an arbitrary type \<open>'a\<close>.
\<close>

datatype stage =
    Uploaded
  | Parsing
  | Analyzing
  | Generating_schema
  | Awaiting_approval
  | Creating_database
  | Completed
  | Failed

record file_info =
  file_name :: string
  file_path :: string

record 'a ingestion_state =
  upload_id :: string
  stage :: stage
  files :: "file_info list"
  requirements :: string
  parsed_data :: "parsed_file list option"
  file_analysis :: "'a option"
  schema_result :: "schema_result option"
  database_result :: "build_result option"
  job_errors :: "string list"

text \<open>
  The orchestrator holds the jobs by identifier. \<open>saved\<close> is the sequence of snapshots
  that \<^verbatim>\<open>_save_state\<close> has written, oldest first, and \<open>world\<close> is whatever the database
  builder works on (the database files). A handler mutates the job object it got from
  \<open>states\<close>; the model writes the job back at every \<^verbatim>\<open>_save_state\<close>, which every path
  that changes the job ends with. Writing a snapshot is taken to succeed, and a job is
  looked up in memory only.
\<close>

record ('a, 'w) orchestrator =
  states :: "string \<Rightarrow> 'a ingestion_state option"
  saved :: "'a ingestion_state list"
  world :: 'w

definition save_state ::
  "('a, 'w) orchestrator \<Rightarrow> string \<Rightarrow> 'a ingestion_state \<Rightarrow> ('a, 'w) orchestrator" where
  "save_state orch ident state =
     orch\<lparr>states := (states orch)(ident \<mapsto> state), saved := saved orch @ [state]\<rparr>"

text \<open>The dictionaries the handlers return.\<close>

datatype 'a response =
    Error_response string "string list option"
  | Message_response string
  | Files_processed string nat 'a
  | Finalized string string build_result

text \<open>
  \<^verbatim>\<open>start_ingestion\<close>; the identifier is drawn at random in the source and is a
  parameter here.
\<close>

definition start_ingestion ::
  "('a, 'w) orchestrator \<Rightarrow> string \<Rightarrow> file_info list \<Rightarrow> string \<Rightarrow> ('a, 'w) orchestrator" where
  "start_ingestion orch new_id new_files reqs =
     save_state orch new_id
       \<lparr>upload_id = new_id, stage = Uploaded, files = new_files, requirements = reqs,
        parsed_data = None, file_analysis = None, schema_result = None,
        database_result = None, job_errors = []\<rparr>"

text \<open>
  The parsing loop of \<^verbatim>\<open>process_files\<close>. The parser is a parameter: \<open>parse path\<close> is
  the parsed file, or \<open>Inl msg\<close> when \<^verbatim>\<open>parse_file\<close> raises an exception whose text is
  \<open>msg\<close>.
\<close>

fun parse_files ::
  "(string \<Rightarrow> string + parsed_file) \<Rightarrow> file_info list \<Rightarrow> parsed_file list \<Rightarrow> string list \<Rightarrow>
   parsed_file list \<times> string list" where
  "parse_files parse [] parsed_files errs = (parsed_files, errs)"
| "parse_files parse (info # rest) parsed_files errs =
     (case parse (file_path info) of
        Inr parsed \<Rightarrow> parse_files parse rest (parsed_files @ [parsed]) errs
      | Inl e \<Rightarrow>
          parse_files parse rest parsed_files
            (errs @ [''Error parsing '' @ file_name info @ '': '' @ e]))"

text \<open>
  \<^verbatim>\<open>process_files\<close>. The analyzer is a parameter as well: \<open>analyze files\<close> is the
  report, or \<open>Inl msg\<close> when \<^verbatim>\<open>analyze_files\<close> raises.
\<close>

definition process_files ::
  "(string \<Rightarrow> string + parsed_file) \<Rightarrow> (parsed_file list \<Rightarrow> string + 'a) \<Rightarrow>
   ('a, 'w) orchestrator \<Rightarrow> string \<Rightarrow> 'a response \<times> ('a, 'w) orchestrator" where
  "process_files parse analyze orch ident =
     (case states orch ident of
        None \<Rightarrow> (Error_response ''Invalid upload ID'' None, orch)
      | Some state \<Rightarrow>
          (let state = state\<lparr>stage := Parsing\<rparr>;
               orch = save_state orch ident state;
               (parsed_files, errs) = parse_files parse (files state) [] (job_errors state);
               state = state\<lparr>job_errors := errs\<rparr>
           in if parsed_files = [] then
                (let state = state\<lparr>stage := Failed\<rparr>;
                     state = state\<lparr>job_errors :=
                               job_errors state @ [''No files successfully parsed'']\<rparr>;
                     orch = save_state orch ident state
                 in (Error_response ''No files successfully parsed'' (Some (job_errors state)),
                     orch))
              else
                (let state = state\<lparr>parsed_data := Some parsed_files\<rparr>;
                     state = state\<lparr>stage := Analyzing\<rparr>;
                     orch = save_state orch ident state
                 in case analyze parsed_files of
                      Inr analysis \<Rightarrow>
                        (let state = state\<lparr>file_analysis := Some analysis\<rparr>;
                             state = state\<lparr>stage := Analyzing\<rparr>;
                             orch = save_state orch ident state
                         in (Files_processed ident (length parsed_files) analysis, orch))
                    | Inl e \<Rightarrow>
                        (let state = state\<lparr>stage := Failed\<rparr>;
                             error_msg = ''Processing failed: '' @ e;
                             state = state\<lparr>job_errors := job_errors state @ [error_msg]\<rparr>;
                             orch = save_state orch ident state
                         in (Error_response error_msg None, orch)))))"

text \<open>
  \<^verbatim>\<open>finalize_ingestion\<close>. The database builder is a parameter that works on the world:
  \<open>build w code name data\<close> is the builder's result dictionary, or \<open>Inl msg\<close> when the call
  raises, together with the world it leaves. A missing or empty \<^verbatim>\<open>db_name\<close> is replaced
  by a name made of the first eight characters of the identifier.
\<close>

definition finalize_ingestion ::
  "('w \<Rightarrow> string \<Rightarrow> string \<Rightarrow> parsed_file list option \<Rightarrow> (string + build_result) \<times> 'w) \<Rightarrow>
   ('a, 'w) orchestrator \<Rightarrow> string \<Rightarrow> string option \<Rightarrow> bool \<Rightarrow>
   'a response \<times> ('a, 'w) orchestrator" where
  "finalize_ingestion build orch ident db_name approved =
     (case states orch ident of
        None \<Rightarrow> (Error_response ''Invalid upload ID'' None, orch)
      | Some state \<Rightarrow>
          if \<not> approved then
            (let state = state\<lparr>stage := Awaiting_approval\<rparr>;
                 orch = save_state orch ident state
             in (Message_response ''Schema not approved, awaiting edits'', orch))
          else
            (case schema_result state of
               None \<Rightarrow> (Error_response ''Schema must be generated first'' None, orch)
             | Some schema \<Rightarrow>
                 (let state = state\<lparr>stage := Creating_database\<rparr>;
                      orch = save_state orch ident state;
                      name = (case db_name of
                                None \<Rightarrow> ''ingestion_'' @ take 8 ident
                              | Some given \<Rightarrow>
                                  if given = [] then ''ingestion_'' @ take 8 ident else given);
                      (outcome, w) = build (world orch) (schema_code schema) name
                                       (parsed_data state);
                      orch = orch\<lparr>world := w\<rparr>
                  in case outcome of
                       Inr db_result \<Rightarrow>
                         (let state = state\<lparr>database_result := Some db_result\<rparr>;
                              state = (if success db_result
                                       then state\<lparr>stage := Completed\<rparr>
                                       else state\<lparr>stage := Failed,
                                                  job_errors := job_errors state @
                                                                errors db_result\<rparr>);
                              orch = save_state orch ident state
                          in (Finalized ident name db_result, orch))
                     | Inl e \<Rightarrow>
                         (let state = state\<lparr>stage := Failed\<rparr>;
                              error_msg = ''Database creation failed: '' @ e;
                              state = state\<lparr>job_errors := job_errors state @ [error_msg]\<rparr>;
                              orch = save_state orch ident state
                          in (Error_response error_msg None, orch)))))"

section \<open>Specification-side definitions and example data\<close>

subsection \<open>The primary-key score as the specification words it\<close>

text \<open>
  The specification gives the second bonus to a column whose name is exactly \<open>id\<close> or
  ends in \<open>_id\<close>. This is that rule read on the name as written, for comparison with
  \<open>pk_score\<close>.
\<close>

definition claimed_pk_score :: "parsed_column \<Rightarrow> nat" where
  "claimed_pk_score col =
     100 + (if py_in ''id'' (lower (col_name col)) then 50 else 0)
         + (if col_name col = ''id'' \<or> endswith (col_name col) ''_id'' then 25 else 0)
         + (if col_type col = ''integer'' then 25 else 0)"

definition upper_id_column :: parsed_column where
  "upper_id_column = \<lparr>col_name = ''ID'', col_type = ''string'', null_count = 0, unique_count = 1\<rparr>"

definition xid_column :: parsed_column where
  "xid_column = \<lparr>col_name = ''xid'', col_type = ''integer'', null_count = 0, unique_count = 1\<rparr>"

definition upper_id_table :: parsed_table where
  "upper_id_table =
     \<lparr>tbl_name = ''visits'', row_count = 1, columns = [upper_id_column, xid_column],
      data = [[(''ID'', PStr ''a''), (''xid'', PInt 7)]]\<rparr>"

definition users_table :: parsed_table where
  "users_table =
     \<lparr>tbl_name = ''users'', row_count = 3,
      columns = [\<lparr>col_name = ''id'', col_type = ''integer'', null_count = 0, unique_count = 3\<rparr>,
                 \<lparr>col_name = ''city'', col_type = ''string'', null_count = 0, unique_count = 2\<rparr>,
                 \<lparr>col_name = ''email'', col_type = ''string'', null_count = 1, unique_count = 2\<rparr>],
      data = []\<rparr>"

subsection \<open>Direction of a relationship\<close>

text \<open>Exchanging the two ends of a reported relationship; confidence and reason are kept.\<close>

definition swap_direction :: "relationship \<Rightarrow> relationship" where
  "swap_direction r =
     \<lparr>from_file = to_file r, from_table = to_table r, from_column = to_column r,
      to_file = from_file r, to_table = from_table r, to_column = from_column r,
      confidence = confidence r, reason = reason r\<rparr>"

subsection \<open>The similarity rule as the specification words it\<close>

text \<open>
  The specification describes the foreign-key pattern as one name ending in \<open>_id\<close> and the
  other being \<open>id\<close>. This is that rule, for comparison with
  \<open>calculate_column_similarity\<close>; names are compared in lower case.
\<close>

definition claimed_column_similarity :: "parsed_column \<Rightarrow> parsed_column \<Rightarrow> rat" where
  "claimed_column_similarity col1 col2 =
     min ((if col_name col1 = col_name col2 then 5 / 10 else 0)
        + (if py_in (lower (col_name col1)) (lower (col_name col2)) \<or>
              py_in (lower (col_name col2)) (lower (col_name col1)) then 3 / 10 else 0)
        + (if col_type col1 = col_type col2 then 2 / 10 else 0)
        + (if (endswith (lower (col_name col1)) ''_id'' \<and> lower (col_name col2) = ''id'') \<or>
              (endswith (lower (col_name col2)) ''_id'' \<and> lower (col_name col1) = ''id'')
           then 4 / 10 else 0)) 1"

subsection \<open>Example tables\<close>

definition idx_table_info :: table_info where
  "idx_table_info =
     \<lparr>source_file = ''audit.csv'',
      table = \<lparr>tbl_name = ''audit'', row_count = 2,
               columns = [\<lparr>col_name = ''a_idx'', col_type = ''string'',
                           null_count = 0, unique_count = 2\<rparr>],
               data = []\<rparr>\<rparr>"

definition id_table_info :: table_info where
  "id_table_info =
     \<lparr>source_file = ''users.csv'',
      table = \<lparr>tbl_name = ''users'', row_count = 3,
               columns = [\<lparr>col_name = ''id'', col_type = ''integer'',
                           null_count = 0, unique_count = 3\<rparr>],
               data = []\<rparr>\<rparr>"

definition users_info :: table_info where
  "users_info =
     \<lparr>source_file = ''users.csv'',
      table = \<lparr>tbl_name = ''users'', row_count = 3,
               columns = [\<lparr>col_name = ''id'', col_type = ''integer'',
                           null_count = 0, unique_count = 3\<rparr>,
                          \<lparr>col_name = ''name'', col_type = ''string'',
                           null_count = 0, unique_count = 3\<rparr>],
               data = []\<rparr>\<rparr>"

definition orders_info :: table_info where
  "orders_info =
     \<lparr>source_file = ''orders.csv'',
      table = \<lparr>tbl_name = ''orders'', row_count = 5,
               columns = [\<lparr>col_name = ''order_id'', col_type = ''integer'',
                           null_count = 0, unique_count = 5\<rparr>,
                          \<lparr>col_name = ''user_id'', col_type = ''integer'',
                           null_count = 0, unique_count = 3\<rparr>],
               data = []\<rparr>\<rparr>"

definition empty_table :: parsed_table where
  "empty_table =
     \<lparr>tbl_name = ''empty'', row_count = 0,
      columns = [\<lparr>col_name = ''id'', col_type = ''string'', null_count = 0, unique_count = 0\<rparr>],
      data = []\<rparr>"

subsection \<open>Example engines and data for the database builder\<close>

text \<open>
  \<open>restrict_row keys r\<close> keeps the entries of a row whose key is in \<open>keys\<close>.
  \<open>logging_engine\<close> accepts every statement and records it with its parameters;
  \<open>not_null_engine\<close> does the same but rejects a statement with a NULL parameter, as a
  table whose columns are all NOT NULL does. \<open>ten_rows\<close> is a ten-row table whose fifth
  row has a null name; \<open>two_workbooks\<close> is two spreadsheet files that each hold a sheet
  named Sheet1, which the parser turns into two tables named Sheet1.
\<close>

definition restrict_row :: "string list \<Rightarrow> row \<Rightarrow> row" where
  "restrict_row keys r = filter (\<lambda>(k, v). k \<in> set keys) r"

definition logging_engine :: "(string \<times> sqlval list) list engine" where
  "logging_engine db sql params = Inr (db @ [(sql, params)])"

definition not_null_engine :: "(string \<times> sqlval list) list engine" where
  "not_null_engine db sql params =
     (if SNull \<in> set params then Inl ''NOT NULL constraint failed''
      else Inr (db @ [(sql, params)]))"

definition ten_rows :: "row list" where
  "ten_rows =
     [[(''id'', PInt 1), (''name'', PStr ''a'')],
      [(''id'', PInt 2), (''name'', PStr ''b'')],
      [(''id'', PInt 3), (''name'', PStr ''c'')],
      [(''id'', PInt 4), (''name'', PStr ''d'')],
      [(''id'', PInt 5), (''name'', PNone)],
      [(''id'', PInt 6), (''name'', PStr ''f'')],
      [(''id'', PInt 7), (''name'', PStr ''g'')],
      [(''id'', PInt 8), (''name'', PStr ''h'')],
      [(''id'', PInt 9), (''name'', PStr ''i'')],
      [(''id'', PInt 10), (''name'', PStr ''j'')]]"

definition sheet_a :: parsed_table where
  "sheet_a = \<lparr>tbl_name = ''Sheet1'', row_count = 3, columns = [],
     data = [[(''id'', PInt 1)], [(''id'', PInt 2)], [(''id'', PInt 3)]]\<rparr>"

definition sheet_b :: parsed_table where
  "sheet_b = \<lparr>tbl_name = ''Sheet1'', row_count = 2, columns = [],
     data = [[(''id'', PInt 4)], [(''id'', PInt 5)]]\<rparr>"

definition two_workbooks :: "parsed_file list" where
  "two_workbooks =
     [\<lparr>filename = ''a.xlsx'', file_format = ''xlsx'', tables = [sheet_a]\<rparr>,
      \<lparr>filename = ''b.xlsx'', file_format = ''xlsx'', tables = [sheet_b]\<rparr>]"

subsection \<open>Example service behaviours\<close>

text \<open>
  \<open>example_str\<close> renders a string value as itself and stands in for Python's
  \<^verbatim>\<open>str\<close> in the examples. \<open>two_round_service\<close> answers a first round with a report
  that has a critical issue and a second round with a report that the service marks
  insufficient although its only issue is a warning. \<open>failing_service\<close> fails on every
  call; \<open>second_round_failure\<close> answers the first round and fails from then on.
\<close>

definition example_str :: "json \<Rightarrow> string" where
  "example_str v = (case v of JStr s \<Rightarrow> s | _ \<Rightarrow> ''(value)'')"

definition good_plan :: json where
  "good_plan =
     JObj [(''tables'', JArr [JObj [(''name'', JStr ''patients''),
                                    (''purpose'', JStr ''One row per patient''),
                                    (''columns'', JArr [JObj [(''name'', JStr ''mrn''),
                                                              (''type'', JStr ''Integer''),
                                                              (''nullable'', JBool False),
                                                              (''primary_key'', JBool True)]])]]),
           (''relationships'', JArr [])]"

definition critical_report :: json where
  "critical_report =
     JObj [(''is_sufficient'', JBool False),
           (''issues'', JArr [JObj [(''severity'', JStr ''critical''),
                                    (''category'', JStr ''primary_key''),
                                    (''description'', JStr ''encounters has no primary key''),
                                    (''suggestion'', JStr ''add an id column'')]]),
           (''warnings'', JArr []),
           (''passed_checks'', JArr [])]"

definition warning_report :: json where
  "warning_report =
     JObj [(''is_sufficient'', JBool False),
           (''issues'', JArr [JObj [(''severity'', JStr ''warning''),
                                    (''category'', JStr ''design''),
                                    (''description'', JStr ''no index on dob''),
                                    (''suggestion'', JStr ''add an index'')]]),
           (''warnings'', JArr [JStr ''no index on dob'']),
           (''passed_checks'', JArr [JStr ''primary keys''])]"

definition two_round_service :: service where
  "two_round_service n =
     (if n = 0 then Reply ''plan 1'' (Some good_plan)
      else if n = 1 then Reply ''```python
class Patient(db.Model): pass
```'' None
      else if n = 2 then Reply ''report 1'' (Some critical_report)
      else if n = 3 then Reply ''plan 2'' (Some good_plan)
      else if n = 4 then Reply ''class Patient(db.Model): pass'' None
      else if n = 5 then Reply ''report 2'' (Some warning_report)
      else if n = 6 then Reply ''class Patient(db.Model): pass'' None
      else Service_failure)"

definition failing_service :: service where
  "failing_service n = Service_failure"

definition second_round_failure :: service where
  "second_round_failure n =
     (if n = 0 then Reply ''plan 1'' (Some good_plan)
      else if n = 1 then Reply ''class Patient(db.Model): pass'' None
      else if n = 2 then Reply ''report 1'' (Some critical_report)
      else Service_failure)"

subsection \<open>Example jobs for the orchestrator\<close>

text \<open>
  \<open>recording_builder\<close> succeeds and adds the database name to the world, a list of names.
  \<open>fresh_job\<close> is a job just started; \<open>declined_job\<close> is that job after finalization was
  requested with approval withheld. \<open>example_parse\<close> parses one path and rejects every
  other; \<open>two_file_job\<close> has a file it rejects and a file it parses, \<open>unreadable_job\<close> only
  a file it rejects. \<open>reviewed_job\<close> holds a job that awaits approval of a generated
  schema.
\<close>

definition recording_builder ::
  "string list \<Rightarrow> string \<Rightarrow> string \<Rightarrow> parsed_file list option \<Rightarrow> (string + build_result) \<times> string list" where
  "recording_builder w code name rows =
     (Inr \<lparr>success = True, db_path = ''./instance/'' @ name @ ''.db'', tables_created = 0,
           rows_inserted = [], errors = [], warnings = []\<rparr>,
      w @ [name])"

definition empty_orchestrator :: "(unit, string list) orchestrator" where
  "empty_orchestrator = \<lparr>states = (\<lambda>ident. None), saved = [], world = []\<rparr>"

definition fresh_job :: "(unit, string list) orchestrator" where
  "fresh_job =
     start_ingestion empty_orchestrator ''job-1''
       [\<lparr>file_name = ''patients.csv'', file_path = ''uploads/job-1/patients.csv''\<rparr>]
       ''one table of patients''"

definition declined_job :: "(unit, string list) orchestrator" where
  "declined_job = snd (finalize_ingestion recording_builder fresh_job ''job-1'' None False)"

definition example_parse :: "string \<Rightarrow> string + parsed_file" where
  "example_parse path =
     (if path = ''uploads/job-2/patients.csv''
      then Inr \<lparr>filename = ''patients.csv'', file_format = ''csv'', tables = []\<rparr>
      else Inl ''Unsupported format'')"

definition two_file_job :: "(unit, string list) orchestrator" where
  "two_file_job =
     start_ingestion empty_orchestrator ''job-2''
       [\<lparr>file_name = ''notes.bin'', file_path = ''uploads/job-2/notes.bin''\<rparr>,
        \<lparr>file_name = ''patients.csv'', file_path = ''uploads/job-2/patients.csv''\<rparr>]
       ''one table of patients''"

definition unreadable_job :: "(unit, string list) orchestrator" where
  "unreadable_job =
     start_ingestion empty_orchestrator ''job-3''
       [\<lparr>file_name = ''notes.bin'', file_path = ''uploads/job-3/notes.bin''\<rparr>]
       ''one table of patients''"

definition approved_schema :: schema_result where
  "approved_schema =
     \<lparr>schema_code = ''class Patient(db.Model): pass'', schema_description = ''One table'',
      verification_status = JBool True, schema_warnings = JArr [],
      relationships_detected = JArr [], refinement_history = [], rounds_taken = 1\<rparr>"

definition reviewed_state :: "unit ingestion_state" where
  "reviewed_state =
     \<lparr>upload_id = ''job-4'', stage = Awaiting_approval, files = [],
      requirements = ''one table of patients'', parsed_data = Some [],
      file_analysis = Some (), schema_result = Some approved_schema,
      database_result = None, job_errors = []\<rparr>"

definition reviewed_job :: "(unit, string list) orchestrator" where
  "reviewed_job =
     \<lparr>states = (\<lambda>ident. if ident = ''job-4'' then Some reviewed_state else None),
      saved = [reviewed_state], world = []\<rparr>"

section \<open>Primary-key suggestion\<close>

lemma pk_candidates_filter:
  "pk_candidates tbl cols = map mk_candidate (filter (is_pk_candidate tbl) cols)"
  by (induction cols) simp_all

lemma py_max_from_mem: "py_max_from key best xs \<in> set (best # xs)"
  by (induction xs arbitrary: best) auto

lemma py_max_from_ge_best: "key best \<le> key (py_max_from key best xs)"
proof (induction xs arbitrary: best)
  case Nil
  show ?case by simp
next
  case (Cons x xs)
  have "key best \<le> key (if key best < key x then x else best)" by simp
  also have "\<dots> \<le> key (py_max_from key (if key best < key x then x else best) xs)"
    by (rule Cons.IH)
  finally show ?case by simp
qed

lemma py_max_from_greatest:
  "x \<in> set (best # xs) \<Longrightarrow> key x \<le> key (py_max_from key best xs)"
proof (induction xs arbitrary: best)
  case Nil
  then show ?case by simp
next
  case (Cons y ys)
  let ?b = "if key best < key y then y else best"
  have best: "key best \<le> key ?b" and y: "key y \<le> key ?b" by simp_all
  from Cons.prems consider "x = best" | "x = y" | "x \<in> set ys" by auto
  then show ?case
  proof cases
    case 1
    with best py_max_from_ge_best [of key ?b ys] show ?thesis by simp
  next
    case 2
    with y py_max_from_ge_best [of key ?b ys] show ?thesis by simp
  next
    case 3
    then have "x \<in> set (?b # ys)" by simp
    from Cons.IH [OF this] show ?thesis by simp
  qed
qed

lemma pk_score_formula:
  "pk_score col =
     100 + (if py_in ''id'' (lower (col_name col)) then 50 else 0)
         + (if endswith (lower (col_name col)) ''_id'' \<or> lower (col_name col) = ''id''
            then 25 else 0)
         + (if col_type col = ''integer'' then 25 else 0)"
  by (simp add: pk_score_def Let_def)

lemma pk_score_id_high: "col_name col = ''id'' \<Longrightarrow> 150 \<le> pk_score col"
proof -
  assume "col_name col = ''id''"
  then have "py_in ''id'' (lower (col_name col))"
    by (simp add: lower_def lower_char_def)
  then show ?thesis unfolding pk_score_formula by simp
qed

lemma suggest_none_iff:
  assumes "0 < row_count tbl"
  shows "suggest_primary_key tbl = None \<longleftrightarrow>
         \<not> (\<exists>col \<in> set (columns tbl). unique_count col = row_count tbl \<and> null_count col = 0)"
proof -
  have "suggest_primary_key tbl = None \<longleftrightarrow> pk_candidates tbl (columns tbl) = []"
    using assms by (simp add: suggest_primary_key_def Let_def split: list.splits)
  also have "\<dots> \<longleftrightarrow> filter (is_pk_candidate tbl) (columns tbl) = []"
    by (simp add: pk_candidates_filter)
  also have "\<dots> \<longleftrightarrow> \<not> (\<exists>col \<in> set (columns tbl).
                 unique_count col = row_count tbl \<and> null_count col = 0)"
    by (simp add: filter_empty_conv is_pk_candidate_def)
  finally show ?thesis .
qed

lemma suggest_some_best:
  assumes "suggest_primary_key tbl = Some s"
  shows "\<exists>col \<in> set (columns tbl).
           unique_count col = row_count tbl \<and> null_count col = 0 \<and>
           pk_column s = col_name col \<and>
           (\<forall>c \<in> set (columns tbl).
              unique_count c = row_count tbl \<and> null_count c = 0 \<longrightarrow> pk_score c \<le> pk_score col) \<and>
           pk_confidence s = (if 150 \<le> pk_score col then ''high'' else ''medium'') \<and>
           pk_reason s = ''Unique values, no nulls, type: '' @ col_type col"
proof -
  let ?cands = "pk_candidates tbl (columns tbl)"
  from assms obtain c cs where cands: "?cands = c # cs"
    by (auto simp: suggest_primary_key_def split: if_splits list.splits)
  define best where "best = py_max_from score c cs"
  from assms cands have s: "s = \<lparr>pk_column = cand_column best,
       pk_confidence = (if 150 \<le> score best then ''high'' else ''medium''),
       pk_reason = cand_reason best\<rparr>"
    by (auto simp: suggest_primary_key_def best_def Let_def split: if_splits)
  have "best \<in> set ?cands"
    unfolding best_def cands by (rule py_max_from_mem)
  then obtain col where col: "col \<in> set (columns tbl)" "is_pk_candidate tbl col"
      "best = mk_candidate col"
    by (auto simp: pk_candidates_filter)
  have greatest: "pk_score c' \<le> pk_score col"
    if "c' \<in> set (columns tbl)" "is_pk_candidate tbl c'" for c'
  proof -
    from that have "mk_candidate c' \<in> set (c # cs)"
      unfolding cands [symmetric] by (simp add: pk_candidates_filter)
    then have "score (mk_candidate c') \<le> score best"
      unfolding best_def by (rule py_max_from_greatest)
    then show ?thesis by (simp add: col(3) mk_candidate_def)
  qed
  show ?thesis
  proof (intro bexI [of _ col] conjI ballI impI)
    show "col \<in> set (columns tbl)" by (rule col(1))
    show "unique_count col = row_count tbl" "null_count col = 0"
      using col(2) by (simp_all add: is_pk_candidate_def)
    show "pk_column s = col_name col" by (simp add: s col(3) mk_candidate_def)
    show "pk_confidence s = (if 150 \<le> pk_score col then ''high'' else ''medium'')"
      by (simp add: s col(3) mk_candidate_def)
    show "pk_reason s = ''Unique values, no nulls, type: '' @ col_type col"
      by (simp add: s col(3) mk_candidate_def)
    show "pk_score c' \<le> pk_score col"
      if "c' \<in> set (columns tbl)" "unique_count c' = row_count tbl \<and> null_count c' = 0" for c'
      using that by (intro greatest) (simp_all add: is_pk_candidate_def)
  qed
qed

lemma py_max_from_first:
  "\<exists>pre post. best # xs = pre @ py_max_from key best xs # post \<and>
     (\<forall>x \<in> set pre. key x < key (py_max_from key best xs)) \<and>
     (\<forall>x \<in> set post. key x \<le> key (py_max_from key best xs))"
proof (induction xs arbitrary: best)
  case Nil
  have "[best] = [] @ py_max_from key best [] # []" by simp
  then show ?case by force
next
  case (Cons y ys)
  define b where "b = (if key best < key y then y else best)"
  define m where "m = py_max_from key b ys"
  have m: "py_max_from key best (y # ys) = m" by (simp add: m_def b_def)
  from Cons.IH [of b] obtain pre post where
    split: "b # ys = pre @ m # post" and
    before: "\<forall>x \<in> set pre. key x < key m" and
    after: "\<forall>x \<in> set post. key x \<le> key m"
    unfolding m_def by blast
  have b_le: "key b \<le> key m" unfolding m_def by (rule py_max_from_ge_best)
  have goal: "\<exists>pre post. best # y # ys = pre @ m # post \<and>
     (\<forall>x \<in> set pre. key x < key m) \<and> (\<forall>x \<in> set post. key x \<le> key m)"
  proof (cases "key best < key y")
    case True
    then have "b = y" by (simp add: b_def)
    with split have "best # y # ys = (best # pre) @ m # post" by simp
    moreover from True b_le \<open>b = y\<close> have "key best < key m" by simp
    with before have "\<forall>x \<in> set (best # pre). key x < key m" by simp
    ultimately show ?thesis using after by blast
  next
    case False
    then have b: "b = best" and y_le: "key y \<le> key best" by (simp_all add: b_def)
    show ?thesis
    proof (cases pre)
      case Nil
      with split have "b # ys = m # post" by simp
      then have "b = m" and "ys = post" by (simp_all only: list.inject)
      with b have mbest: "m = best" by simp
      have "best # y # ys = [] @ m # (y # ys)" by (simp add: mbest)
      moreover have "\<forall>x \<in> set (y # ys). key x \<le> key m"
        using after y_le \<open>ys = post\<close> mbest by simp
      moreover have "\<forall>x \<in> set ([] :: 'a list). key x < key m" by simp
      ultimately show ?thesis by blast
    next
      case (Cons p pre')
      with split b have p: "p = best" and ys: "ys = pre' @ m # post" by simp_all
      from before Cons p have "key best < key m" by simp
      with y_le have "key y < key m" by simp
      with before Cons p have "\<forall>x \<in> set (best # y # pre'). key x < key m" by simp
      moreover from ys have "best # y # ys = (best # y # pre') @ m # post" by simp
      ultimately show ?thesis using after by blast
    qed
  qed
  then show ?case unfolding m .
qed

lemma pk_candidates_split:
  "pk_candidates tbl cols = pre @ m # post \<Longrightarrow>
   \<exists>before col after. cols = before @ col # after \<and> is_pk_candidate tbl col \<and>
     m = mk_candidate col \<and> pre = pk_candidates tbl before \<and>
     post = pk_candidates tbl after"
proof (induction cols arbitrary: pre)
  case Nil
  then show ?case by simp
next
  case (Cons c cs)
  show ?case
  proof (cases "is_pk_candidate tbl c")
    case False
    with Cons.prems have "pk_candidates tbl cs = pre @ m # post" by simp
    from Cons.IH [OF this] obtain before col after where
      "cs = before @ col # after" "is_pk_candidate tbl col" "m = mk_candidate col"
      "pre = pk_candidates tbl before" "post = pk_candidates tbl after" by blast
    with False show ?thesis
      by (intro exI [of _ "c # before"] exI [of _ col] exI [of _ after]) simp
  next
    case True
    with Cons.prems have eq: "mk_candidate c # pk_candidates tbl cs = pre @ m # post" by simp
    show ?thesis
    proof (cases pre)
      case Nil
      with eq True show ?thesis
        by (intro exI [of _ "[]"] exI [of _ c] exI [of _ cs]) simp
    next
      case (Cons p pre')
      with eq have p: "p = mk_candidate c" and "pk_candidates tbl cs = pre' @ m # post"
        by simp_all
      from Cons.IH [OF this(2)] obtain before col after where
        "cs = before @ col # after" "is_pk_candidate tbl col" "m = mk_candidate col"
        "pre' = pk_candidates tbl before" "post = pk_candidates tbl after" by blast
      with True Cons p show ?thesis
        by (intro exI [of _ "c # before"] exI [of _ col] exI [of _ after]) simp
    qed
  qed
qed

lemma suggest_some_first_best:
  assumes "suggest_primary_key tbl = Some s"
  shows "\<exists>before col after.
           columns tbl = before @ col # after \<and>
           unique_count col = row_count tbl \<and> null_count col = 0 \<and>
           pk_column s = col_name col \<and>
           (\<forall>c \<in> set before.
              unique_count c = row_count tbl \<and> null_count c = 0 \<longrightarrow> pk_score c < pk_score col) \<and>
           (\<forall>c \<in> set after.
              unique_count c = row_count tbl \<and> null_count c = 0 \<longrightarrow> pk_score c \<le> pk_score col) \<and>
           pk_confidence s = (if 150 \<le> pk_score col then ''high'' else ''medium'') \<and>
           pk_reason s = ''Unique values, no nulls, type: '' @ col_type col"
proof -
  let ?cands = "pk_candidates tbl (columns tbl)"
  from assms obtain c cs where cands: "?cands = c # cs"
    by (auto simp: suggest_primary_key_def split: if_splits list.splits)
  define best where "best = py_max_from score c cs"
  from assms cands have s: "s = \<lparr>pk_column = cand_column best,
       pk_confidence = (if 150 \<le> score best then ''high'' else ''medium''),
       pk_reason = cand_reason best\<rparr>"
    by (auto simp: suggest_primary_key_def best_def Let_def split: if_splits)
  from py_max_from_first [of c cs score] obtain pre post where
    split: "?cands = pre @ best # post" and
    pre: "\<forall>x \<in> set pre. score x < score best" and
    post: "\<forall>x \<in> set post. score x \<le> score best"
    unfolding best_def cands by blast
  from pk_candidates_split [OF split] obtain before col after where
    cols: "columns tbl = before @ col # after" and
    col: "is_pk_candidate tbl col" "best = mk_candidate col" and
    pre_eq: "pre = pk_candidates tbl before" and post_eq: "post = pk_candidates tbl after"
    by blast
  have earlier: "pk_score c' < pk_score col"
    if "c' \<in> set before" "unique_count c' = row_count tbl \<and> null_count c' = 0" for c'
  proof -
    from that have "mk_candidate c' \<in> set pre"
      by (simp add: pre_eq pk_candidates_filter is_pk_candidate_def)
    with pre have "score (mk_candidate c') < score best" by blast
    then show ?thesis by (simp add: col(2) mk_candidate_def)
  qed
  have later: "pk_score c' \<le> pk_score col"
    if "c' \<in> set after" "unique_count c' = row_count tbl \<and> null_count c' = 0" for c'
  proof -
    from that have "mk_candidate c' \<in> set post"
      by (simp add: post_eq pk_candidates_filter is_pk_candidate_def)
    with post have "score (mk_candidate c') \<le> score best" by blast
    then show ?thesis by (simp add: col(2) mk_candidate_def)
  qed
  have a: "\<forall>c \<in> set before.
      unique_count c = row_count tbl \<and> null_count c = 0 \<longrightarrow> pk_score c < pk_score col"
    using earlier by blast
  have b: "\<forall>c \<in> set after.
      unique_count c = row_count tbl \<and> null_count c = 0 \<longrightarrow> pk_score c \<le> pk_score col"
    using later by blast
  have c: "unique_count col = row_count tbl" "null_count col = 0"
    using col(1) by (simp_all add: is_pk_candidate_def)
  have d: "pk_column s = col_name col"
    "pk_confidence s = (if 150 \<le> pk_score col then ''high'' else ''medium'')"
    "pk_reason s = ''Unique values, no nulls, type: '' @ col_type col"
    by (simp_all add: s col(2) mk_candidate_def)
  from cols a b c d show ?thesis by blast
qed

lemma suggest_only_id:
  assumes rows: "0 < row_count tbl"
    and ex: "\<exists>col \<in> set (columns tbl). unique_count col = row_count tbl \<and> null_count col = 0"
    and only: "\<forall>col \<in> set (columns tbl).
                 unique_count col = row_count tbl \<and> null_count col = 0 \<longrightarrow> col_name col = ''id''"
  shows "\<exists>r. suggest_primary_key tbl =
              Some \<lparr>pk_column = ''id'', pk_confidence = ''high'', pk_reason = r\<rparr>"
proof -
  from rows ex obtain s where s: "suggest_primary_key tbl = Some s"
    using suggest_none_iff [OF rows] by (cases "suggest_primary_key tbl") auto
  from suggest_some_best [OF s] obtain col where
    col: "col \<in> set (columns tbl)" "unique_count col = row_count tbl" "null_count col = 0"
      "pk_column s = col_name col"
      "pk_confidence s = (if 150 \<le> pk_score col then ''high'' else ''medium'')"
    by blast
  from only col have name: "col_name col = ''id''" by blast
  then have "150 \<le> pk_score col" by (rule pk_score_id_high)
  with col name have "pk_column s = ''id''" "pk_confidence s = ''high''" by simp_all
  then have "s = \<lparr>pk_column = ''id'', pk_confidence = ''high'', pk_reason = pk_reason s\<rparr>"
    by simp
  with s show ?thesis by metis
qed

text \<open>
  Claim C4, as amended. For a table with at least one row, the candidates are exactly the
  columns whose unique count equals the row count and whose null count is zero. A candidate
  scores 100, plus 50 if its lower-cased name contains \<open>id\<close>, plus 25 if its lower-cased
  name is \<open>id\<close> or ends in \<open>_id\<close>, plus 25 if its type is \<open>integer\<close>. The suggestion names
  a candidate of highest score, and on a tie the first such candidate in column order:
  every candidate before it scores strictly less, every candidate after it scores at most
  as much. Its confidence is high exactly when that score is at least 150 and medium
  otherwise; there is no suggestion exactly when there is no candidate. When every
  candidate is named \<open>id\<close> and there is one, the suggestion is \<open>id\<close> with confidence high.
\<close>

theorem suggest_primary_key_spec:
  assumes "0 < row_count tbl"
  shows
    "(suggest_primary_key tbl = None \<longleftrightarrow>
        \<not> (\<exists>col \<in> set (columns tbl). unique_count col = row_count tbl \<and> null_count col = 0)) \<and>
     (\<forall>s. suggest_primary_key tbl = Some s \<longrightarrow>
        (\<exists>before col after.
           columns tbl = before @ col # after \<and>
           unique_count col = row_count tbl \<and> null_count col = 0 \<and>
           pk_column s = col_name col \<and>
           (\<forall>c \<in> set before.
              unique_count c = row_count tbl \<and> null_count c = 0 \<longrightarrow> pk_score c < pk_score col) \<and>
           (\<forall>c \<in> set after.
              unique_count c = row_count tbl \<and> null_count c = 0 \<longrightarrow> pk_score c \<le> pk_score col) \<and>
           (\<forall>c \<in> set (columns tbl).
              unique_count c = row_count tbl \<and> null_count c = 0 \<longrightarrow> pk_score c \<le> pk_score col) \<and>
           (pk_confidence s = ''high'' \<longleftrightarrow> 150 \<le> pk_score col) \<and>
           (pk_confidence s = ''medium'' \<longleftrightarrow> pk_score col < 150))) \<and>
     (\<forall>col. pk_score col =
        100 + (if py_in ''id'' (lower (col_name col)) then 50 else 0)
            + (if endswith (lower (col_name col)) ''_id'' \<or> lower (col_name col) = ''id''
               then 25 else 0)
            + (if col_type col = ''integer'' then 25 else 0)) \<and>
     ((\<exists>col \<in> set (columns tbl). unique_count col = row_count tbl \<and> null_count col = 0) \<and>
      (\<forall>col \<in> set (columns tbl).
         unique_count col = row_count tbl \<and> null_count col = 0 \<longrightarrow> col_name col = ''id'') \<longrightarrow>
      (\<exists>r. suggest_primary_key tbl =
             Some \<lparr>pk_column = ''id'', pk_confidence = ''high'', pk_reason = r\<rparr>))"
proof (intro conjI allI impI)
  show "suggest_primary_key tbl = None \<longleftrightarrow>
        \<not> (\<exists>col \<in> set (columns tbl). unique_count col = row_count tbl \<and> null_count col = 0)"
    using assms by (rule suggest_none_iff)
next
  fix s assume "suggest_primary_key tbl = Some s"
  from suggest_some_first_best [OF this] obtain before col after where
    cols: "columns tbl = before @ col # after" and
    col: "unique_count col = row_count tbl" "null_count col = 0"
      "pk_column s = col_name col" and
    earlier: "\<forall>c \<in> set before.
         unique_count c = row_count tbl \<and> null_count c = 0 \<longrightarrow> pk_score c < pk_score col" and
    later: "\<forall>c \<in> set after.
         unique_count c = row_count tbl \<and> null_count c = 0 \<longrightarrow> pk_score c \<le> pk_score col" and
    conf: "pk_confidence s = (if 150 \<le> pk_score col then ''high'' else ''medium'')"
    by blast
  have all: "\<forall>c \<in> set (columns tbl).
         unique_count c = row_count tbl \<and> null_count c = 0 \<longrightarrow> pk_score c \<le> pk_score col"
  proof (intro ballI impI)
    fix c assume c: "c \<in> set (columns tbl)"
      and q: "unique_count c = row_count tbl \<and> null_count c = 0"
    from c cols consider "c \<in> set before" | "c = col" | "c \<in> set after" by auto
    then show "pk_score c \<le> pk_score col"
    proof cases
      case 1
      with earlier q have "pk_score c < pk_score col" by blast
      then show ?thesis by simp
    next
      case 2
      then show ?thesis by simp
    next
      case 3
      with later q show ?thesis by blast
    qed
  qed
  have "pk_confidence s = ''high'' \<longleftrightarrow> 150 \<le> pk_score col"
    and "pk_confidence s = ''medium'' \<longleftrightarrow> pk_score col < 150"
    using conf by (simp_all split: if_splits)
  with cols col earlier later all show "\<exists>before col after.
           columns tbl = before @ col # after \<and>
           unique_count col = row_count tbl \<and> null_count col = 0 \<and>
           pk_column s = col_name col \<and>
           (\<forall>c \<in> set before.
              unique_count c = row_count tbl \<and> null_count c = 0 \<longrightarrow> pk_score c < pk_score col) \<and>
           (\<forall>c \<in> set after.
              unique_count c = row_count tbl \<and> null_count c = 0 \<longrightarrow> pk_score c \<le> pk_score col) \<and>
           (\<forall>c \<in> set (columns tbl).
              unique_count c = row_count tbl \<and> null_count c = 0 \<longrightarrow> pk_score c \<le> pk_score col) \<and>
           (pk_confidence s = ''high'' \<longleftrightarrow> 150 \<le> pk_score col) \<and>
           (pk_confidence s = ''medium'' \<longleftrightarrow> pk_score col < 150)"
    by blast
next
  fix col
  show "pk_score col =
        100 + (if py_in ''id'' (lower (col_name col)) then 50 else 0)
            + (if endswith (lower (col_name col)) ''_id'' \<or> lower (col_name col) = ''id''
               then 25 else 0)
            + (if col_type col = ''integer'' then 25 else 0)"
    by (rule pk_score_formula)
next
  assume "(\<exists>col \<in> set (columns tbl). unique_count col = row_count tbl \<and> null_count col = 0) \<and>
      (\<forall>col \<in> set (columns tbl).
         unique_count col = row_count tbl \<and> null_count col = 0 \<longrightarrow> col_name col = ''id'')"
  with assms show "\<exists>r. suggest_primary_key tbl =
             Some \<lparr>pk_column = ''id'', pk_confidence = ''high'', pk_reason = r\<rparr>"
    using suggest_only_id by blast
qed

theorem suggest_primary_key_spec_witness:
  "0 < row_count users_table \<and>
   suggest_primary_key users_table =
     Some \<lparr>pk_column = ''id'', pk_confidence = ''high'',
           pk_reason = ''Unique values, no nulls, type: integer''\<rparr>"
proof -
  have rows: "0 < row_count users_table" by (simp add: users_table_def)
  have ex: "\<exists>col \<in> set (columns users_table).
              unique_count col = row_count users_table \<and> null_count col = 0"
    by (simp add: users_table_def)
  have only: "\<forall>col \<in> set (columns users_table).
      unique_count col = row_count users_table \<and> null_count col = 0 \<longrightarrow> col_name col = ''id''"
    by (simp add: users_table_def)
  note particular =
    suggest_primary_key_spec [OF rows, THEN conjunct2, THEN conjunct2, THEN conjunct2]
  from ex only have "\<exists>r. suggest_primary_key users_table =
      Some \<lparr>pk_column = ''id'', pk_confidence = ''high'', pk_reason = r\<rparr>"
    by (intro particular [THEN mp] conjI)
  then obtain r where r: "suggest_primary_key users_table =
      Some \<lparr>pk_column = ''id'', pk_confidence = ''high'', pk_reason = r\<rparr>" ..
  have "pk_reason (the (suggest_primary_key users_table)) =
        ''Unique values, no nulls, type: integer''"
    by (simp add: users_table_def suggest_primary_key_def is_pk_candidate_def mk_candidate_def)
  with r rows show ?thesis by simp
qed

theorem pk_name_case_counterexample:
  "0 < row_count upper_id_table \<and>
   suggest_primary_key upper_id_table =
     Some \<lparr>pk_column = ''ID'', pk_confidence = ''high'',
           pk_reason = ''Unique values, no nulls, type: string''\<rparr> \<and>
   pk_score upper_id_column = 175 \<and>
   claimed_pk_score upper_id_column = 150 \<and>
   claimed_pk_score xid_column = 175"
  by (simp add: upper_id_table_def upper_id_column_def xid_column_def suggest_primary_key_def
      is_pk_candidate_def mk_candidate_def pk_score_def claimed_pk_score_def
      lower_def lower_char_def endswith_def)

section \<open>Relationship detection\<close>

lemma score_chain:
  fixes a b c d :: rat
  shows "min (if D then (if C then (if B then (if A then 0 + a else 0) + b
                                     else (if A then 0 + a else 0)) + c
                         else (if B then (if A then 0 + a else 0) + b
                               else (if A then 0 + a else 0))) + d
              else (if C then (if B then (if A then 0 + a else 0) + b
                               else (if A then 0 + a else 0)) + c
                    else (if B then (if A then 0 + a else 0) + b
                          else (if A then 0 + a else 0)))) 1 =
         min ((if A then a else 0) + (if B then b else 0) + (if C then c else 0) +
              (if D then d else 0)) 1"
  by (cases A; cases B; cases C; cases D) simp_all

lemma similarity_formula:
  "calculate_column_similarity col1 col2 =
     min ((if col_name col1 = col_name col2 then 5 / 10 else 0)
        + (if py_in (lower (col_name col1)) (lower (col_name col2)) \<or>
              py_in (lower (col_name col2)) (lower (col_name col1)) then 3 / 10 else 0)
        + (if col_type col1 = col_type col2 then 2 / 10 else 0)
        + (if (py_in ''_id'' (lower (col_name col1)) \<and> lower (col_name col2) = ''id'') \<or>
              (py_in ''_id'' (lower (col_name col2)) \<and> lower (col_name col1) = ''id'')
           then 4 / 10 else 0)) 1"
  unfolding calculate_column_similarity_def Let_def by (rule score_chain)

lemma similarity_commute:
  "calculate_column_similarity col1 col2 = calculate_column_similarity col2 col1"
proof -
  have a: "(col_name col1 = col_name col2) = (col_name col2 = col_name col1)"
    by (rule eq_commute)
  have b: "(py_in (lower (col_name col1)) (lower (col_name col2)) \<or>
            py_in (lower (col_name col2)) (lower (col_name col1))) =
           (py_in (lower (col_name col2)) (lower (col_name col1)) \<or>
            py_in (lower (col_name col1)) (lower (col_name col2)))"
    by (rule disj_commute)
  have c: "(col_type col1 = col_type col2) = (col_type col2 = col_type col1)"
    by (rule eq_commute)
  have d: "((py_in ''_id'' (lower (col_name col1)) \<and> lower (col_name col2) = ''id'') \<or>
            (py_in ''_id'' (lower (col_name col2)) \<and> lower (col_name col1) = ''id'')) =
           ((py_in ''_id'' (lower (col_name col2)) \<and> lower (col_name col1) = ''id'') \<or>
            (py_in ''_id'' (lower (col_name col1)) \<and> lower (col_name col2) = ''id''))"
    by (rule disj_commute)
  show ?thesis
    unfolding similarity_formula [of col1 col2] similarity_formula [of col2 col1]
    by (subst a, subst b, subst c, subst d, rule refl)
qed

lemma reason_commute: "get_relationship_reason col1 col2 = get_relationship_reason col2 col1"
proof -
  have a: "(col_name col1 = col_name col2) = (col_name col2 = col_name col1)"
    by (rule eq_commute)
  have b: "(py_in (lower (col_name col1)) (lower (col_name col2)) \<or>
            py_in (lower (col_name col2)) (lower (col_name col1))) =
           (py_in (lower (col_name col2)) (lower (col_name col1)) \<or>
            py_in (lower (col_name col1)) (lower (col_name col2)))"
    by (rule disj_commute)
  have d: "(py_in ''_id'' (lower (col_name col1)) \<or> py_in ''_id'' (lower (col_name col2))) =
           (py_in ''_id'' (lower (col_name col2)) \<or> py_in ''_id'' (lower (col_name col1)))"
    by (rule disj_commute)
  show ?thesis
  proof (cases "col_type col1 = col_type col2")
    case True
    then have t: "col_type col2 = col_type col1" by (rule sym)
    show ?thesis
      unfolding get_relationship_reason_def [of col1 col2] get_relationship_reason_def [of col2 col1]
        Let_def t
      by (simp only: a b d)
  next
    case False
    then have f: "(col_type col1 = col_type col2) = False" "(col_type col2 = col_type col1) = False"
      by auto
    show ?thesis
      unfolding get_relationship_reason_def [of col1 col2] get_relationship_reason_def [of col2 col1]
        Let_def f if_False
      by (simp only: a b d)
  qed
qed

lemma swap_mk_relationship:
  "swap_direction (mk_relationship t2 t1 col2 col1) = mk_relationship t1 t2 col1 col2"
  by (simp add: swap_direction_def mk_relationship_def
        similarity_commute [of col2 col1] reason_commute [of col2 col1])

lemma set_pair_relationships:
  "set (pair_relationships t1 t2) =
     {mk_relationship t1 t2 col1 col2 | col1 col2.
        col1 \<in> set (columns (table t1)) \<and> col2 \<in> set (columns (table t2)) \<and>
        5 / 10 < calculate_column_similarity col1 col2}"
  unfolding pair_relationships_def by (auto split: if_splits)

lemma pair_relationshipsI:
  "col1 \<in> set (columns (table t1)) \<Longrightarrow> col2 \<in> set (columns (table t2)) \<Longrightarrow>
   5 / 10 < calculate_column_similarity col1 col2 \<Longrightarrow>
   mk_relationship t1 t2 col1 col2 \<in> set (pair_relationships t1 t2)"
  unfolding set_pair_relationships by blast

lemma detect_two: "detect_relationships [a, b] = pair_relationships a b"
  by simp

text \<open>
  Claim C6. Analysing the list \<open>[a, b]\<close> and analysing the list \<open>[b, a]\<close> report the same
  relationships up to direction: exchanging the from and to ends of every relationship
  found for \<open>[b, a]\<close> gives exactly the set found for \<open>[a, b]\<close>, with the same
  confidence and reason on each.
\<close>

theorem detect_relationships_symmetric:
  "set (map swap_direction (detect_relationships [b, a])) = set (detect_relationships [a, b])"
proof -
  have "swap_direction ` set (pair_relationships b a) = set (pair_relationships a b)"
  proof (intro equalityI subsetI)
    fix r assume "r \<in> swap_direction ` set (pair_relationships b a)"
    then obtain col2 col1 where
      "col2 \<in> set (columns (table b))" "col1 \<in> set (columns (table a))"
      "5 / 10 < calculate_column_similarity col2 col1"
      "r = swap_direction (mk_relationship b a col2 col1)"
      unfolding set_pair_relationships by blast
    then show "r \<in> set (pair_relationships a b)"
      using swap_mk_relationship [of b a col2 col1] similarity_commute [of col2 col1]
      by (simp add: pair_relationshipsI)
  next
    fix r assume "r \<in> set (pair_relationships a b)"
    then obtain col1 col2 where
      "col1 \<in> set (columns (table a))" "col2 \<in> set (columns (table b))"
      "5 / 10 < calculate_column_similarity col1 col2"
      "r = mk_relationship a b col1 col2"
      unfolding set_pair_relationships by blast
    then have "mk_relationship b a col2 col1 \<in> set (pair_relationships b a)"
      and "r = swap_direction (mk_relationship b a col2 col1)"
      using swap_mk_relationship [of b a col2 col1] similarity_commute [of col2 col1]
      by (simp_all add: pair_relationshipsI)
    then show "r \<in> swap_direction ` set (pair_relationships b a)" by blast
  qed
  then show ?thesis by (simp only: detect_two set_map)
qed

lemma detect_relationships_mem:
  "r \<in> set (detect_relationships all_tables) \<longleftrightarrow>
     (\<exists>before t1 between t2 after col1 col2.
        all_tables = before @ t1 # between @ t2 # after \<and>
        col1 \<in> set (columns (table t1)) \<and> col2 \<in> set (columns (table t2)) \<and>
        5 / 10 < calculate_column_similarity col1 col2 \<and>
        r = mk_relationship t1 t2 col1 col2)"
  (is "?L all_tables \<longleftrightarrow> ?R all_tables")
proof (induction all_tables)
  case Nil
  show ?case by simp
next
  case (Cons t rest)
  show ?case
  proof
    assume "?L (t # rest)"
    then consider t2 where "t2 \<in> set rest" "r \<in> set (pair_relationships t t2)"
      | "?L rest" by auto
    then show "?R (t # rest)"
    proof cases
      case 1
      from 1(1) obtain between after where "rest = between @ t2 # after"
        by (auto dest: split_list)
      then have "t # rest = [] @ t # between @ t2 # after" by simp
      with 1(2) show ?thesis
        unfolding set_pair_relationships by blast
    next
      case 2
      with Cons.IH obtain before t1 between t2 after col1 col2 where
        "rest = before @ t1 # between @ t2 # after"
        "col1 \<in> set (columns (table t1))" "col2 \<in> set (columns (table t2))"
        "5 / 10 < calculate_column_similarity col1 col2"
        "r = mk_relationship t1 t2 col1 col2" by blast
      moreover from this(1) have "t # rest = (t # before) @ t1 # between @ t2 # after"
        by simp
      ultimately show ?thesis by blast
    qed
  next
    assume "?R (t # rest)"
    then obtain before t1 between t2 after col1 col2 where
      split: "t # rest = before @ t1 # between @ t2 # after" and
      cols: "col1 \<in> set (columns (table t1))" "col2 \<in> set (columns (table t2))"
        "5 / 10 < calculate_column_similarity col1 col2"
        "r = mk_relationship t1 t2 col1 col2" by blast
    show "?L (t # rest)"
    proof (cases before)
      case Nil
      with split have "t = t1" "t2 \<in> set rest" by auto
      moreover from cols have "r \<in> set (pair_relationships t1 t2)"
        unfolding set_pair_relationships by blast
      ultimately show ?thesis by auto
    next
      case (Cons b before')
      with split have "rest = before' @ t1 # between @ t2 # after" by simp
      with cols have "?R rest" by blast
      with Cons.IH show ?thesis by simp
    qed
  qed
qed

text \<open>
  Claim C5, as amended. The similarity of two columns is the sum of 0.5 for identical
  names, 0.3 when one lower-cased name is a substring of the other, 0.2 for identical
  types, and 0.4 when one lower-cased name contains \<open>_id\<close> (anywhere, not only at the
  end) and the other is \<open>id\<close>, capped at 1. A relationship is reported exactly for a
  table, a later table of the list, and a pair of their columns scoring above 0.5; its
  confidence is high exactly when the score is above 0.8 and medium otherwise.
\<close>

theorem column_similarity_spec:
  "calculate_column_similarity col1 col2 =
     min ((if col_name col1 = col_name col2 then 5 / 10 else 0)
        + (if py_in (lower (col_name col1)) (lower (col_name col2)) \<or>
              py_in (lower (col_name col2)) (lower (col_name col1)) then 3 / 10 else 0)
        + (if col_type col1 = col_type col2 then 2 / 10 else 0)
        + (if (py_in ''_id'' (lower (col_name col1)) \<and> lower (col_name col2) = ''id'') \<or>
              (py_in ''_id'' (lower (col_name col2)) \<and> lower (col_name col1) = ''id'')
           then 4 / 10 else 0)) 1 \<and>
   (r \<in> set (detect_relationships all_tables) \<longleftrightarrow>
     (\<exists>before t1 between t2 after c1 c2.
        all_tables = before @ t1 # between @ t2 # after \<and>
        c1 \<in> set (columns (table t1)) \<and> c2 \<in> set (columns (table t2)) \<and>
        5 / 10 < calculate_column_similarity c1 c2 \<and>
        r = mk_relationship t1 t2 c1 c2)) \<and>
   (confidence (mk_relationship ta tb col1 col2) = ''high'' \<longleftrightarrow>
      8 / 10 < calculate_column_similarity col1 col2) \<and>
   (confidence (mk_relationship ta tb col1 col2) = ''medium'' \<longleftrightarrow>
      calculate_column_similarity col1 col2 \<le> 8 / 10) \<and>
   from_table (mk_relationship ta tb col1 col2) = tbl_name (table ta) \<and>
   from_column (mk_relationship ta tb col1 col2) = col_name col1 \<and>
   to_table (mk_relationship ta tb col1 col2) = tbl_name (table tb) \<and>
   to_column (mk_relationship ta tb col1 col2) = col_name col2"
proof (intro conjI)
  show "r \<in> set (detect_relationships all_tables) \<longleftrightarrow>
     (\<exists>before t1 between t2 after c1 c2.
        all_tables = before @ t1 # between @ t2 # after \<and>
        c1 \<in> set (columns (table t1)) \<and> c2 \<in> set (columns (table t2)) \<and>
        5 / 10 < calculate_column_similarity c1 c2 \<and>
        r = mk_relationship t1 t2 c1 c2)"
    by (rule detect_relationships_mem)
qed (simp_all add: similarity_formula [symmetric] mk_relationship_def not_less)

theorem column_similarity_spec_witness:
  "mk_relationship users_info orders_info
      \<lparr>col_name = ''id'', col_type = ''integer'', null_count = 0, unique_count = 3\<rparr>
      \<lparr>col_name = ''user_id'', col_type = ''integer'', null_count = 0, unique_count = 3\<rparr>
     \<in> set (detect_relationships [users_info, orders_info]) \<and>
   calculate_column_similarity
      \<lparr>col_name = ''id'', col_type = ''integer'', null_count = 0, unique_count = 3\<rparr>
      \<lparr>col_name = ''user_id'', col_type = ''integer'', null_count = 0, unique_count = 3\<rparr>
     = 9 / 10 \<and>
   confidence (mk_relationship users_info orders_info
      \<lparr>col_name = ''id'', col_type = ''integer'', null_count = 0, unique_count = 3\<rparr>
      \<lparr>col_name = ''user_id'', col_type = ''integer'', null_count = 0, unique_count = 3\<rparr>)
     = ''high''"
proof -
  let ?c1 = "\<lparr>col_name = ''id'', col_type = ''integer'', null_count = 0, unique_count = 3\<rparr>"
  let ?c2 = "\<lparr>col_name = ''user_id'', col_type = ''integer'', null_count = 0, unique_count = 3\<rparr>"
  let ?r = "mk_relationship users_info orders_info ?c1 ?c2"
  note spec = column_similarity_spec [of ?c1 ?c2 ?r "[users_info, orders_info]"
      users_info orders_info]
  have sim: "calculate_column_similarity ?c1 ?c2 = 9 / 10"
    by (simp add: spec lower_def lower_char_def)
  have split: "[users_info, orders_info] = [] @ users_info # [] @ orders_info # []" by simp
  have c1: "?c1 \<in> set (columns (table users_info))" by (simp add: users_info_def)
  have c2: "?c2 \<in> set (columns (table orders_info))" by (simp add: orders_info_def)
  have "5 / 10 < calculate_column_similarity ?c1 ?c2" by (simp add: sim)
  with split c1 c2 have "\<exists>before t1 between t2 after c1 c2.
        [users_info, orders_info] = before @ t1 # between @ t2 # after \<and>
        c1 \<in> set (columns (table t1)) \<and> c2 \<in> set (columns (table t2)) \<and>
        5 / 10 < calculate_column_similarity c1 c2 \<and>
        ?r = mk_relationship t1 t2 c1 c2"
    by blast
  then have "?r \<in> set (detect_relationships [users_info, orders_info])"
    by (rule spec [THEN conjunct2, THEN conjunct1, THEN iffD2])
  moreover have "confidence ?r = ''high''"
    using spec sim by simp
  ultimately show ?thesis using sim by simp
qed

theorem id_suffix_counterexample:
  "detect_relationships [idx_table_info, id_table_info] =
     [\<lparr>from_file = ''audit.csv'', from_table = ''audit'', from_column = ''a_idx'',
       to_file = ''users.csv'', to_table = ''users'', to_column = ''id'',
       confidence = ''medium'',
       reason = ''similar column names, foreign key naming pattern''\<rparr>] \<and>
   calculate_column_similarity
     \<lparr>col_name = ''a_idx'', col_type = ''string'', null_count = 0, unique_count = 2\<rparr>
     \<lparr>col_name = ''id'', col_type = ''integer'', null_count = 0, unique_count = 3\<rparr> = 7 / 10 \<and>
   claimed_column_similarity
     \<lparr>col_name = ''a_idx'', col_type = ''string'', null_count = 0, unique_count = 2\<rparr>
     \<lparr>col_name = ''id'', col_type = ''integer'', null_count = 0, unique_count = 3\<rparr> = 3 / 10"
  by code_simp

section \<open>Empty tables\<close>

lemma null_issues_empty_table: "row_count tbl = 0 \<Longrightarrow> null_issues fmt tbl cols = []"
  by (induction cols) (simp_all add: null_pct_def)

text \<open>
  Claim C9. A table whose row count is 0 gets no primary-key suggestion and no data-quality
  finding, whatever its columns are: also when every column has a unique count equal to
  the row count and no nulls, and also when the table has no column at all.
\<close>

theorem empty_table_no_findings:
  "row_count tbl = 0 \<Longrightarrow>
     suggest_primary_key tbl = None \<and> detect_data_quality_issues fmt tbl = Inr []"
  by (simp add: suggest_primary_key_def detect_data_quality_issues_def null_issues_empty_table)

theorem empty_table_no_findings_witness:
  "row_count empty_table = 0 \<and>
   list_all (\<lambda>col. unique_count col = row_count empty_table \<and> null_count col = 0)
     (columns empty_table) \<and>
   suggest_primary_key empty_table = None \<and>
   detect_data_quality_issues (\<lambda>pct. ''0.0'') empty_table = Inr []"
proof -
  have h: "row_count empty_table = 0" by (simp add: empty_table_def)
  have "list_all (\<lambda>col. unique_count col = row_count empty_table \<and> null_count col = 0)
     (columns empty_table)"
    by (simp add: empty_table_def)
  with h empty_table_no_findings [OF h, of "\<lambda>pct. ''0.0''"] show ?thesis by simp
qed

section \<open>Database builder\<close>

lemma insert_rows_cong:
  "map (row_values cols) rows = map (row_values cols) rows' \<Longrightarrow>
   insert_rows execute t sql cols rows db n errs = insert_rows execute t sql cols rows' db n errs"
proof (induction rows arbitrary: rows' db n errs)
  case Nil
  then show ?case by simp
next
  case (Cons r rows)
  then obtain r' rest' where rows': "rows' = r' # rest'"
    and r: "row_values cols r = row_values cols r'"
    and rest: "map (row_values cols) rows = map (row_values cols) rest'"
    by (cases rows') auto
  show ?case
    unfolding rows' by (simp add: r Cons.IH [OF rest] split: sum.splits)
qed

lemma row_get_restrict: "col \<in> set keys \<Longrightarrow> row_get (restrict_row keys r) col = row_get r col"
  by (induction r) (auto simp: row_get_def restrict_row_def)

lemma row_values_restrict: "row_values keys (restrict_row keys r) = row_values keys r"
  by (simp add: row_values_def row_get_restrict)

lemma row_get_missing: "col \<notin> fst ` set r \<Longrightarrow> row_get r col = PNone"
proof -
  assume "col \<notin> fst ` set r"
  then have "map_of r col = None" by (simp add: map_of_eq_None_iff)
  then show ?thesis by (simp add: row_get_def)
qed

lemma insert_rows_counts:
  "insert_rows execute t sql cols rows db n errs = (db', n', errs') \<Longrightarrow>
   \<exists>new. errs' = errs @ new \<and> n' + length new = n + length rows \<and>
         (\<forall>e \<in> set new. prefix (''Error inserting row into '' @ t @ '': '') e)"
proof (induction rows arbitrary: db n errs)
  case Nil
  then show ?case by simp
next
  case (Cons r rows)
  show ?case
  proof (cases "execute db sql (row_values cols r)")
    case (Inr db1)
    with Cons.prems have "insert_rows execute t sql cols rows db1 (n + 1) errs = (db', n', errs')"
      by simp
    from Cons.IH [OF this] show ?thesis by auto
  next
    case (Inl e)
    let ?msg = "''Error inserting row into '' @ t @ '': '' @ e"
    from Inl Cons.prems have "insert_rows execute t sql cols rows db n (errs @ [?msg]) = (db', n', errs')"
      by simp
    from Cons.IH [OF this] obtain new where
      new: "errs' = (errs @ [?msg]) @ new" "n' + length new = n + length rows"
        "\<forall>e \<in> set new. prefix (''Error inserting row into '' @ t @ '': '') e" by blast
    have "prefix (''Error inserting row into '' @ t @ '': '') ?msg"
      by (metis append.assoc prefixI)
    with new show ?thesis
      by (intro exI [of _ "?msg # new"]) simp
  qed
qed

lemma insert_rows_logging:
  "insert_rows logging_engine t sql cols rows db n errs =
     (db @ map (\<lambda>r. (sql, row_values cols r)) rows, n + length rows, errs)"
  by (induction rows arbitrary: db n) (simp_all add: logging_engine_def)

lemma row_values_lookup:
  "row_values cols r =
     map (\<lambda>col. case map_of r col of None \<Rightarrow> SNull | Some v \<Rightarrow> convert_value v) cols"
  by (simp add: row_values_def row_get_def split: option.splits)


text \<open>
  The partial-failure scenario of the specification: ten rows of which the fifth has a
  null where the table forbids it. Nine rows are inserted and one warning names the table.
\<close>

lemma ten_rows_one_null:
  "insert_data not_null_engine [] ''people'' ten_rows =
     ([(''INSERT INTO people (id,name) VALUES (?,?)'', [SInt 1, SText ''a'']),
       (''INSERT INTO people (id,name) VALUES (?,?)'', [SInt 2, SText ''b'']),
       (''INSERT INTO people (id,name) VALUES (?,?)'', [SInt 3, SText ''c'']),
       (''INSERT INTO people (id,name) VALUES (?,?)'', [SInt 4, SText ''d'']),
       (''INSERT INTO people (id,name) VALUES (?,?)'', [SInt 6, SText ''f'']),
       (''INSERT INTO people (id,name) VALUES (?,?)'', [SInt 7, SText ''g'']),
       (''INSERT INTO people (id,name) VALUES (?,?)'', [SInt 8, SText ''h'']),
       (''INSERT INTO people (id,name) VALUES (?,?)'', [SInt 9, SText ''i'']),
       (''INSERT INTO people (id,name) VALUES (?,?)'', [SInt 10, SText ''j''])],
      9, [''Error inserting row into people: NOT NULL constraint failed''])"
  by code_simp

lemma insert_data_counts:
  assumes "insert_data execute db t rows = (db', inserted, errs)"
  shows "inserted + length errs = length rows \<and>
   (\<forall>e \<in> set errs. prefix (''Error inserting row into '' @ t @ '': '') e)"
proof (cases rows)
  case Nil
  with assms show ?thesis by (simp add: insert_data_def)
next
  case (Cons first rest)
  from assms have "insert_rows execute t (insert_statement t (map fst first)) (map fst first)
      rows db 0 [] = (db', inserted, errs)"
    unfolding insert_data_def Cons list.case Let_def .
  from insert_rows_counts [OF this] show ?thesis by simp
qed


section \<open>Schema agent\<close>

lemma try_bind_Inr_iff: "try_bind m f = Inr y \<longleftrightarrow> (\<exists>x. m = Inr x \<and> f x = Inr y)"
  by (cases m) (simp_all add: try_bind_def)

lemma try_bind_Inl: "m = Inl e \<Longrightarrow> try_bind m f = Inl e"
  by (simp add: try_bind_def)

lemma try_bind_Inr: "m = Inr x \<Longrightarrow> try_bind m f = f x"
  by (simp add: try_bind_def)

lemma chat_json_Inr: "chat_json svc n = Inr v \<Longrightarrow> \<exists>content. svc n = Reply content (Some v)"
  by (auto simp: chat_json_def split: reply.splits option.splits)

lemma chat_content_Inr: "chat_content svc n = Inr c \<Longrightarrow> \<exists>parsed. svc n = Reply c parsed"
  by (auto simp: chat_content_def split: reply.splits)

lemma generate_code_Inr:
  "generate_code svc n = Inr code \<Longrightarrow> \<exists>content parsed. svc n = Reply content parsed"
  unfolding generate_code_def try_bind_Inr_iff by (blast dest: chat_content_Inr)

lemma verify_schema_Inr:
  "verify_schema svc n = Inr v \<Longrightarrow> \<exists>content report. svc n = Reply content (Some report)"
  unfolding verify_schema_def try_bind_Inr_iff by (blast dest: chat_json_Inr)

lemma with_severity_none:
  "\<forall>i \<in> set issues. \<exists>fields. i = JObj fields \<and> map_of fields ''severity'' \<noteq> Some (JStr sev) \<Longrightarrow>
   with_severity sev issues = Inr []"
proof (induction issues)
  case Nil
  show ?case by simp
next
  case (Cons i rest)
  then obtain fields where i: "i = JObj fields"
    and sev: "map_of fields ''severity'' \<noteq> Some (JStr sev)" by auto
  from Cons have rest: "with_severity sev rest = Inr []" by simp
  from sev have "(case map_of fields ''severity'' of None \<Rightarrow> JNull | Some v \<Rightarrow> v) \<noteq> JStr sev"
    by (cases "map_of fields ''severity''") simp_all
  then show ?case by (simp add: i rest)
qed



lemma run_round_Inr:
  assumes "run_round svc str rnd n plan0 = Inr (entry, sufficient)"
  shows "(\<exists>content v. svc n = Reply content (Some v)) \<and>
         (\<exists>content parsed. svc (n + 1) = Reply content parsed) \<and>
         (\<exists>content v. svc (n + 2) = Reply content (Some v)) \<and>
         (\<exists>flag. py_item (verification entry) ''is_sufficient'' = Inr flag \<and>
                 truthy flag = sufficient) \<and>
         round_num entry = rnd"
proof -
  from assms obtain new_plan code report flag where
    p: "(if plan0 = JNull then create_initial_plan svc n else refine_plan svc n) = Inr new_plan"
    and c: "generate_code svc (n + 1) = Inr code"
    and v: "verify_schema svc (n + 2) = Inr report"
    and f: "py_item report ''is_sufficient'' = Inr flag"
    and rest: "(if truthy flag
       then Inr (\<lparr>round_num = rnd, plan = new_plan, verification = report,
                  action = None\<rparr>, True)
       else try_bind (route_next_action str report) (\<lambda>act.
              Inr (\<lparr>round_num = rnd, plan = new_plan, verification = report,
                    action = Some act\<rparr>, False))) = Inr (entry, sufficient)"
    unfolding run_round_def try_bind_Inr_iff by blast
  from p have "chat_json svc n = Inr new_plan"
    by (simp add: create_initial_plan_def refine_plan_def split: if_splits)
  then have a: "\<exists>content v. svc n = Reply content (Some v)" by (blast dest: chat_json_Inr)
  from c have b: "\<exists>content parsed. svc (n + 1) = Reply content parsed"
    by (rule generate_code_Inr)
  from v have d: "\<exists>content v. svc (n + 2) = Reply content (Some v)"
    by (rule verify_schema_Inr)
  from rest have e: "verification entry = report \<and> round_num entry = rnd \<and>
      sufficient = truthy flag"
    by (cases "truthy flag") (auto simp: try_bind_Inr_iff)
  from a b d e f show ?thesis by auto
qed

lemma refine_loop_Inr:
  "refine_loop svc str k rnd n plan0 hist = Inr (plan', hist', n') \<Longrightarrow>
   \<exists>new. hist' = hist @ new \<and> length new \<le> k \<and> n' = n + 3 * length new \<and>
     (\<forall>m. n \<le> m \<and> m < n' \<longrightarrow>
        (\<exists>content parsed. svc m = Reply content parsed \<and>
           ((m - n) mod 3 \<noteq> 1 \<longrightarrow> parsed \<noteq> None))) \<and>
     (length new < k \<longrightarrow>
        new \<noteq> [] \<and> (\<exists>flag. py_item (verification (last new)) ''is_sufficient'' = Inr flag \<and>
                              truthy flag)) \<and>
     (\<forall>j < length new. round_num (new ! j) = rnd + j)"
proof (induction k arbitrary: rnd n plan0 hist)
  case 0
  then have "hist' = hist @ []" "n' = n" by simp_all
  then show ?case by (intro exI [of _ "[]"]) auto
next
  case (Suc k)
  from Suc.prems obtain entry sufficient where
    round: "run_round svc str rnd n plan0 = Inr (entry, sufficient)"
    and rest: "(if sufficient then Inr (plan entry, hist @ [entry], n + 3)
          else refine_loop svc str k (rnd + 1) (n + 3) (plan entry) (hist @ [entry])) =
         Inr (plan', hist', n')"
    by (auto split: sum.splits prod.splits)
  from run_round_Inr [OF round] obtain flag where
    c0: "\<exists>content v. svc n = Reply content (Some v)" and
    c1: "\<exists>content parsed. svc (n + 1) = Reply content parsed" and
    c2: "\<exists>content v. svc (n + 2) = Reply content (Some v)" and
    flag: "py_item (verification entry) ''is_sufficient'' = Inr flag" "truthy flag = sufficient" and
    num: "round_num entry = rnd"
    by blast
  have calls: "\<exists>content parsed. svc m = Reply content parsed \<and>
           ((m - n) mod 3 \<noteq> 1 \<longrightarrow> parsed \<noteq> None)"
    if "n \<le> m" "m < n + 3" for m
  proof -
    from that consider "m = n" | "m = n + 1" | "m = n + 2" by linarith
    then show ?thesis
    proof cases
      case 1
      with c0 show ?thesis by auto
    next
      case 2
      with c1 show ?thesis by auto
    next
      case 3
      with c2 show ?thesis by auto
    qed
  qed
  show ?case
  proof (cases sufficient)
    case True
    with rest have eq: "hist' = hist @ [entry]" "n' = n + 3" by simp_all
    show ?thesis
    proof (intro exI [of _ "[entry]"] conjI allI impI)
      show "hist' = hist @ [entry]" by (rule eq(1))
      show "length [entry] \<le> Suc k" by simp
      show "n' = n + 3 * length [entry]" by (simp add: eq)
      show "\<exists>content parsed. svc m = Reply content parsed \<and>
           ((m - n) mod 3 \<noteq> 1 \<longrightarrow> parsed \<noteq> None)"
        if "n \<le> m \<and> m < n'" for m
        using that calls [of m] eq(2) by simp
      show "[entry] \<noteq> []" by simp
      show "\<exists>flag. py_item (verification (last [entry])) ''is_sufficient'' = Inr flag \<and>
          truthy flag"
        using flag True by simp
      show "round_num ([entry] ! j) = rnd + j" if "j < length [entry]" for j
        using that by (simp add: num)
    qed
  next
    case False
    with rest have "refine_loop svc str k (rnd + 1) (n + 3) (plan entry) (hist @ [entry]) =
         Inr (plan', hist', n')" by simp
    from Suc.IH [OF this] obtain new where
      h: "hist' = (hist @ [entry]) @ new" and len: "length new \<le> k" and
      n': "n' = n + 3 + 3 * length new" and
      later: "\<forall>m. n + 3 \<le> m \<and> m < n' \<longrightarrow>
        (\<exists>content parsed. svc m = Reply content parsed \<and>
           ((m - (n + 3)) mod 3 \<noteq> 1 \<longrightarrow> parsed \<noteq> None))" and
      early: "length new < k \<longrightarrow>
        new \<noteq> [] \<and> (\<exists>flag. py_item (verification (last new)) ''is_sufficient'' = Inr flag \<and>
                              truthy flag)" and
      nums: "\<forall>j < length new. round_num (new ! j) = rnd + 1 + j"
      by (elim exE conjE)
    show ?thesis
    proof (intro exI [of _ "entry # new"] conjI allI impI)
      show "hist' = hist @ entry # new" by (simp add: h)
      show "length (entry # new) \<le> Suc k" using len by simp
      show "n' = n + 3 * length (entry # new)" using n' by simp
      show "\<exists>content parsed. svc m = Reply content parsed \<and>
           ((m - n) mod 3 \<noteq> 1 \<longrightarrow> parsed \<noteq> None)"
        if m: "n \<le> m \<and> m < n'" for m
      proof (cases "m < n + 3")
        case True
        with m show ?thesis by (intro calls) simp_all
      next
        case False
        with m have range: "n + 3 \<le> m \<and> m < n'" by simp
        obtain content parsed where r: "svc m = Reply content parsed"
          and p: "(m - (n + 3)) mod 3 \<noteq> 1 \<longrightarrow> parsed \<noteq> None"
          using later [rule_format, OF range] by (elim exE conjE)
        from False have "m - n = (m - (n + 3)) + 3" by simp
        then have "(m - n) mod 3 = (m - (n + 3)) mod 3" by (simp only: mod_add_self2)
        with p have "(m - n) mod 3 \<noteq> 1 \<longrightarrow> parsed \<noteq> None" by (simp only:)
        with r show ?thesis by (intro exI conjI)
      qed
      assume short: "length (entry # new) < Suc k"
      show "entry # new \<noteq> []" by simp
      from short early have nonempty: "new \<noteq> []" and
        last_ok: "\<exists>flag. py_item (verification (last new)) ''is_sufficient'' = Inr flag \<and>
                   truthy flag" by simp_all
      from nonempty have "last (entry # new) = last new" by simp
      with last_ok show "\<exists>flag.
          py_item (verification (last (entry # new))) ''is_sufficient'' = Inr flag \<and> truthy flag"
        by simp
    next
      fix j assume "j < length (entry # new)"
      then show "round_num ((entry # new) ! j) = rnd + j"
        using nums num by (cases j) simp_all
    qed
  qed
qed

lemma generate_schema_Inr:
  assumes "generate_schema svc str max_rounds = Inr r"
  shows "rounds_taken r = length (refinement_history r) \<and>
     1 \<le> rounds_taken r \<and> rounds_taken r \<le> max_rounds \<and>
     (\<forall>m \<le> 3 * rounds_taken r. \<exists>content parsed. svc m = Reply content parsed \<and>
        (m < 3 * rounds_taken r \<and> m mod 3 \<noteq> 1 \<longrightarrow> parsed \<noteq> None)) \<and>
     (rounds_taken r < max_rounds \<longrightarrow> truthy (verification_status r)) \<and>
     (\<forall>j < rounds_taken r. round_num (refinement_history r ! j) = j + 1)"
proof -
  from assms obtain res where
    loop0: "refine_loop svc str max_rounds 1 0 JNull [] = Inr res" and
    rest0: "(case res of (current_plan, history, n) \<Rightarrow>
       try_bind (generate_code svc n) (\<lambda>final_schema.
       try_bind (generate_description str current_plan) (\<lambda>description.
       try_bind (if history = [] then Inl NameError
                 else Inr (verification (last history))) (\<lambda>report.
       try_bind (py_item report ''is_sufficient'') (\<lambda>status.
       try_bind (py_get report ''warnings'' (JArr [])) (\<lambda>warns.
       try_bind (py_get current_plan ''relationships'' (JArr [])) (\<lambda>rels.
       Inr \<lparr>schema_code = final_schema,
            schema_description = description,
            verification_status = status,
            schema_warnings = warns,
            relationships_detected = rels,
            refinement_history = history,
            rounds_taken = length history\<rparr>))))))) = Inr r"
    unfolding generate_schema_def try_bind_Inr_iff by (elim exE conjE)
  obtain current_plan history n where res: "res = (current_plan, history, n)"
    by (cases res)
  note loop = loop0 [unfolded res]
  from rest0 [unfolded res prod.case try_bind_Inr_iff]
  obtain final_schema description report status warns rels
    where code: "generate_code svc n = Inr final_schema"
      and rep: "(if history = [] then Inl NameError
                 else Inr (verification (last history))) = Inr report"
      and status: "py_item report ''is_sufficient'' = Inr status"
      and r0: "Inr \<lparr>schema_code = final_schema, schema_description = description,
          verification_status = status, schema_warnings = warns,
          relationships_detected = rels, refinement_history = history,
          rounds_taken = length history\<rparr> = (Inr r :: exn + schema_result)"
    by (elim exE conjE)
  from r0 have r: "r = \<lparr>schema_code = final_schema, schema_description = description,
          verification_status = status, schema_warnings = warns,
          relationships_detected = rels, refinement_history = history,
          rounds_taken = length history\<rparr>"
    by (simp only: sum.inject)
  from rep have nonempty: "history \<noteq> []" and report: "report = verification (last history)"
    by (auto split: if_splits)
  from refine_loop_Inr [OF loop] obtain new where
    h: "history = [] @ new" and len: "length new \<le> max_rounds" and
    n: "n = 0 + 3 * length new" and
    calls: "\<forall>m. 0 \<le> m \<and> m < n \<longrightarrow>
        (\<exists>content parsed. svc m = Reply content parsed \<and>
           ((m - 0) mod 3 \<noteq> 1 \<longrightarrow> parsed \<noteq> None))" and
    early: "length new < max_rounds \<longrightarrow>
        new \<noteq> [] \<and> (\<exists>flag. py_item (verification (last new)) ''is_sufficient'' = Inr flag \<and>
                              truthy flag)" and
    nums: "\<forall>j < length new. round_num (new ! j) = 1 + j"
    by (elim exE conjE)
  from h have new: "new = history" by simp
  have a: "rounds_taken r = length (refinement_history r)" by (simp add: r)
  have b: "1 \<le> rounds_taken r" using nonempty by (cases history) (simp_all add: r)
  have c: "rounds_taken r \<le> max_rounds" using len by (simp add: r new)
  have d: "\<exists>content parsed. svc m = Reply content parsed \<and>
        (m < 3 * rounds_taken r \<and> m mod 3 \<noteq> 1 \<longrightarrow> parsed \<noteq> None)"
    if "m \<le> 3 * rounds_taken r" for m
  proof (cases "m < n")
    case True
    then have "0 \<le> m \<and> m < n" by simp
    from calls [rule_format, OF this] show ?thesis by auto
  next
    case False
    with that have "m = n" by (simp add: r n new)
    moreover from code obtain content parsed where "svc n = Reply content parsed"
      by (blast dest: generate_code_Inr)
    ultimately show ?thesis by (simp add: r n new)
  qed
  have e: "truthy (verification_status r)" if "rounds_taken r < max_rounds"
  proof -
    from that have "length new < max_rounds" by (simp add: r new)
    with early obtain flag where
      "py_item (verification (last new)) ''is_sufficient'' = Inr flag" "truthy flag" by blast
    with status report new show ?thesis by (simp add: r)
  qed
  have f: "round_num (refinement_history r ! j) = j + 1" if "j < rounds_taken r" for j
    using that nums by (simp add: r new)
  from a b c d e f show ?thesis by blast
qed

lemma generate_schema_first_call_fails:
  assumes "svc 0 = Service_failure"
  shows "generate_schema svc str max_rounds = Inl ServiceError"
proof (cases max_rounds)
  case 0
  have "generate_code svc 0 = Inl ServiceError"
    by (simp add: generate_code_def chat_content_def assms try_bind_def)
  then show ?thesis by (simp add: generate_schema_def 0 try_bind_def)
next
  case (Suc k)
  have "run_round svc str 1 0 JNull = Inl ServiceError"
    by (simp add: run_round_def create_initial_plan_def chat_json_def assms try_bind_def)
  then show ?thesis by (simp add: generate_schema_def Suc try_bind_def)
qed

lemma generate_schema_first_reply_not_json:
  assumes "svc 0 = Reply content None" "0 < max_rounds"
  shows "generate_schema svc str max_rounds = Inl JSONDecodeError"
proof -
  from assms(2) obtain k where k: "max_rounds = Suc k" by (cases max_rounds) simp_all
  have "run_round svc str 1 0 JNull = Inl JSONDecodeError"
    by (simp add: run_round_def create_initial_plan_def chat_json_def assms try_bind_def)
  then show ?thesis by (simp add: generate_schema_def k try_bind_def)
qed

lemma generate_schema_no_rounds: "\<exists>e. generate_schema svc str 0 = Inl e"
proof (cases "generate_code svc 0")
  case (Inl e)
  then show ?thesis by (simp add: generate_schema_def try_bind_def)
next
  case (Inr code)
  have "generate_description str JNull = Inl TypeError"
    by (simp add: generate_description_def try_bind_def)
  with Inr show ?thesis by (simp add: generate_schema_def try_bind_def)
qed




section \<open>Ingestion orchestrator\<close>

lemma parse_files_result:
  "parse_files parse fs parsed errs =
     (parsed @ concat (map (\<lambda>f. case parse (file_path f) of Inr p \<Rightarrow> [p] | Inl e \<Rightarrow> []) fs),
      errs @ concat (map (\<lambda>f. case parse (file_path f) of
                                Inr p \<Rightarrow> []
                              | Inl e \<Rightarrow> [''Error parsing '' @ file_name f @ '': '' @ e]) fs))"
  by (induction fs arbitrary: parsed errs) (simp_all split: sum.splits)

lemma no_success_iff:
  "concat (map (\<lambda>f. case parse (file_path f) of Inr p \<Rightarrow> [p] | Inl e \<Rightarrow> []) fs) = [] \<longleftrightarrow>
   (\<forall>f \<in> set fs. isl (parse (file_path f)))"
  by (induction fs) (auto split: sum.splits)






end
